theory Spec2Isabelle
  imports Complex_Main
begin

section \<open>The persistent store (models.py)\<close>

text \<open>
  Each table is the list of its rows, in storage order. Columns that no modelled
  operation reads or writes (names, phone numbers, creation stamps) are left out.
  A \<open>Float\<close> column holds a double, written as the real number it stands for; the
  sums and differences the code forms on such values are those of the built-ins below,
  not the exact ones. Infinities and NaN have no counterpart here. A \<open>DateTime\<close>
  is a count of microseconds.
\<close>

type_synonym datetime = int

record user =
  uid :: int
  telegram_id :: int
  wallet_balance :: real

record server =
  srv_id :: int
  srv_host :: string
  srv_username :: string
  srv_password :: string
  srv_port :: int

record profile =
  pid :: int
  prof_name :: string
  version :: int
  price :: real
  validity_days :: int
  data_limit_gb :: int
  prof_server_id :: int
  is_active :: bool

record subscription =
  sid :: int
  sub_user_id :: int
  sub_server_id :: int
  sub_profile_id :: int
  mikrotik_username :: string
  mikrotik_password :: string
  expiry_date :: datetime
  total_limit_bytes :: int

record txn =
  txn_user_id :: int
  amount :: real
  txn_type :: string
  description :: string

record payment_receipt =
  rid :: int
  rcp_user_id :: int
  rcp_amount :: real
  status :: string
  admin_note :: "string option"

record db =
  users :: "user list"
  servers :: "server list"
  profiles :: "profile list"
  subscriptions :: "subscription list"
  transactions :: "txn list"
  payment_receipts :: "payment_receipt list"

text \<open>\<open>select(User).where(User.id == user_id)\<close> followed by \<open>first()\<close>.\<close>

definition get_user :: "int \<Rightarrow> db \<Rightarrow> user option" where
  "get_user i d = find (\<lambda>u. uid u = i) (users d)"

text \<open>
  The ORM flushes a changed attribute as \<open>UPDATE users SET wallet_balance = ?
  WHERE id = ?\<close>.
\<close>

definition set_wallet_balance :: "int \<Rightarrow> real \<Rightarrow> db \<Rightarrow> db" where
  "set_wallet_balance i b d =
     d\<lparr>users := map (\<lambda>u. if uid u = i then u\<lparr>wallet_balance := b\<rparr> else u) (users d)\<rparr>"

definition add_txn :: "txn \<Rightarrow> db \<Rightarrow> db" where
  "add_txn t d = d\<lparr>transactions := transactions d @ [t]\<rparr>"

section \<open>Python built-ins\<close>

text \<open>\<open>str(n)\<close> for an integer: decimal digits, with a minus sign when negative.\<close>

definition digit_char :: "nat \<Rightarrow> char" where
  "digit_char n = ''0123456789'' ! n"

function str_nat :: "nat \<Rightarrow> string" where
  "str_nat n = (if n < 10 then [digit_char n] else str_nat (n div 10) @ [digit_char (n mod 10)])"
  by pat_completeness auto
termination
  by (relation "measure (\<lambda>n. n)") auto

declare str_nat.simps [simp del]

definition str_int :: "int \<Rightarrow> string" where
  "str_int i = (if i < 0 then CHR ''-'' # str_nat (nat (- i)) else str_nat (nat i))"

text \<open>
  What Python does on floats and on Unicode text stays a parameter of the model:
  \<open>int(s)\<close> and \<open>float(s)\<close> on a string (\<open>None\<close> is \<open>ValueError\<close>),
  \<open>s.strip()\<close>, and the sum \<open>x + y\<close> and the difference \<open>x - y\<close> of two
  floats, which are rounded to a double.
\<close>

record builtins =
  py_int :: "string \<Rightarrow> int option"
  py_float :: "string \<Rightarrow> real option"
  py_strip :: "string \<Rightarrow> string"
  float_add :: "real \<Rightarrow> real \<Rightarrow> real"
  float_sub :: "real \<Rightarrow> real \<Rightarrow> real"

subsection \<open>Double precision\<close>

text \<open>
  The arithmetic of IEEE 754 binary64, as CPython's \<open>float\<close> has it, for results in
  the finite range: the exact result is rounded to the nearest double, a tie to the one
  with the even significand. \<open>binade n x\<close> looks for the exponent \<open>e\<close> with
  \<open>2^52 \<le> x / 2^e < 2^53\<close> in at most \<open>n\<close> steps; the spacing of the doubles
  around \<open>x\<close> is \<open>2^e\<close>, and never less than \<open>2^-1074\<close>.
\<close>

definition round_half_even :: "real \<Rightarrow> int" where
  "round_half_even x =
     (let f = \<lfloor>x\<rfloor>; t = x - of_int f
      in if t < 1 / 2 then f else if 1 / 2 < t then f + 1 else if even f then f else f + 1)"

fun binade :: "nat \<Rightarrow> real \<Rightarrow> int" where
  "binade 0 x = 0"
| "binade (Suc n) x =
     (if x < 4503599627370496 then binade n (2 * x) - 1
      else if 9007199254740992 \<le> x then binade n (x / 2) + 1
      else 0)"

definition pow2 :: "int \<Rightarrow> real" where
  "pow2 e = (if 0 \<le> e then 2 ^ nat e else 1 / 2 ^ nat (- e))"

definition float64_round :: "real \<Rightarrow> real" where
  "float64_round x =
     (if x = 0 then 0
      else let u = pow2 (max (binade 2200 \<bar>x\<bar>) (- 1074))
           in of_int (round_half_even (x / u)) * u)"

definition float64_add :: "real \<Rightarrow> real \<Rightarrow> real" where
  "float64_add x y = float64_round (x + y)"

definition float64_sub :: "real \<Rightarrow> real \<Rightarrow> real" where
  "float64_sub x y = float64_round (x - y)"

section \<open>WalletManager (wallet\_manager.py)\<close>

text \<open>
  Every method opens a session of its own and wraps its work in \<open>try\<close>. The flag
  \<open>db_ok\<close> is the environment's answer for that session: \<open>False\<close> means a
  statement or the commit raised, so the \<open>except\<close> branch ran and nothing of the
  session was stored.
\<close>

definition deposit :: "builtins \<Rightarrow> bool \<Rightarrow> int \<Rightarrow> real \<Rightarrow> string \<Rightarrow> db \<Rightarrow> bool \<times> db" where
  "deposit B db_ok user_id amt descr d =
     (if \<not> db_ok then (False, d)
      else case get_user user_id d of
        None \<Rightarrow> (False, d)
      | Some u \<Rightarrow>
          (True,
           add_txn \<lparr>txn_user_id = user_id, amount = amt, txn_type = ''deposit'',
                    description = descr\<rparr>
             (set_wallet_balance user_id (float_add B (wallet_balance u) amt) d)))"

definition deduct :: "builtins \<Rightarrow> bool \<Rightarrow> int \<Rightarrow> real \<Rightarrow> string \<Rightarrow> db \<Rightarrow> bool \<times> db" where
  "deduct B db_ok user_id amt descr d =
     (if \<not> db_ok then (False, d)
      else case get_user user_id d of
        None \<Rightarrow> (False, d)
      | Some u \<Rightarrow>
          if wallet_balance u < amt then (False, d)
          else
            (True,
             add_txn \<lparr>txn_user_id = user_id, amount = - amt, txn_type = ''purchase'',
                      description = descr\<rparr>
               (set_wallet_balance user_id (float_sub B (wallet_balance u) amt) d)))"

text \<open>
  \<open>approve_receipt\<close> commits the receipt in its own session (\<open>db_ok\<close>) and
  only then calls \<open>deposit\<close>, which runs in a second session (\<open>deposit_ok\<close>).
\<close>

definition get_receipt :: "int \<Rightarrow> db \<Rightarrow> payment_receipt option" where
  "get_receipt i d = find (\<lambda>r. rid r = i) (payment_receipts d)"

definition update_receipt :: "int \<Rightarrow> string \<Rightarrow> string \<Rightarrow> db \<Rightarrow> db" where
  "update_receipt i st note d =
     d\<lparr>payment_receipts :=
         map (\<lambda>r. if rid r = i then r\<lparr>status := st, admin_note := Some note\<rparr> else r)
           (payment_receipts d)\<rparr>"

definition approve_receipt ::
  "builtins \<Rightarrow> bool \<Rightarrow> bool \<Rightarrow> int \<Rightarrow> int \<Rightarrow> db \<Rightarrow> bool \<times> db" where
  "approve_receipt B db_ok deposit_ok receipt_id admin_id d =
     (if \<not> db_ok then (False, d)
      else case get_receipt receipt_id d of
        None \<Rightarrow> (False, d)
      | Some receipt \<Rightarrow>
          if status receipt \<noteq> ''pending'' then (False, d)
          else
            deposit B deposit_ok (rcp_user_id receipt) (rcp_amount receipt)
              (''Receipt #'' @ str_int receipt_id)
              (update_receipt receipt_id ''approved'' (''Approved by '' @ str_int admin_id) d))"

definition reject_receipt :: "bool \<Rightarrow> int \<Rightarrow> int \<Rightarrow> string \<Rightarrow> db \<Rightarrow> bool \<times> db" where
  "reject_receipt db_ok receipt_id admin_id reason d =
     (if \<not> db_ok then (False, d)
      else case get_receipt receipt_id d of
        None \<Rightarrow> (False, d)
      | Some receipt \<Rightarrow>
          (True,
           update_receipt receipt_id ''rejected''
             (''Rejected by '' @ str_int admin_id @ '': '' @ reason) d))"


section \<open>MikroTikManager (mikrotik\_manager.py)\<close>

text \<open>
  The router is reached through the \<open>routeros_api\<close> library, which is outside the
  repository. Its answers are therefore a script supplied by the environment: every
  network operation (opening the connection, \<open>get\<close>, \<open>add\<close>, \<open>set\<close>,
  \<open>remove\<close>) takes the next reply of the script, and is recorded in the log of
  calls. A reply either raises or returns rows; a script that has run out raises, as an
  unreachable router does.
\<close>

type_synonym row = "(string \<times> string) list"

datatype arg = Str string | Dict "(string \<times> string) list"

datatype api_call =
    Connect string int
  | Get string "(string \<times> arg) list"
  | Add string "(string \<times> arg) list"
  | Set string "(string \<times> arg) list"
  | Remove string "(string \<times> arg) list"

datatype reply = Raises | Returns "row list"

record router =
  replies :: "reply list"
  calls :: "api_call list"

record config =
  MIKROTIK_HOST :: string
  MIKROTIK_USERNAME :: string
  MIKROTIK_PASSWORD :: string

record manager =
  host :: string
  username :: string
  password :: string
  port :: int
  api :: bool

text \<open>
  A method body runs on the manager and the router and either raises (\<open>None\<close>) or
  returns a value.
\<close>

type_synonym 'a rad = "manager \<times> router \<Rightarrow> 'a option \<times> manager \<times> router"

definition return_rad :: "'a \<Rightarrow> 'a rad" where
  "return_rad x s = (Some x, s)"

definition raise_rad :: "'a rad" where
  "raise_rad s = (None, s)"

definition bind_rad :: "'a rad \<Rightarrow> ('a \<Rightarrow> 'b rad) \<Rightarrow> 'b rad" where
  "bind_rad f g s = (case f s of (None, s') \<Rightarrow> (None, s') | (Some x, s') \<Rightarrow> g x s')"

text \<open>\<open>try: ... except Exception: return dflt\<close>\<close>

definition try_rad :: "'a \<Rightarrow> 'a rad \<Rightarrow> manager \<times> router \<Rightarrow> 'a \<times> manager \<times> router" where
  "try_rad dflt f s = (case f s of (None, s') \<Rightarrow> (dflt, s') | (Some x, s') \<Rightarrow> (x, s'))"

definition perform :: "api_call \<Rightarrow> (row list) rad" where
  "perform c s =
     (case s of (m, r) \<Rightarrow>
        (case replies r of
           [] \<Rightarrow> (None, m, r\<lparr>calls := calls r @ [c]\<rparr>)
         | Raises # rs \<Rightarrow> (None, m, \<lparr>replies = rs, calls = calls r @ [c]\<rparr>)
         | Returns rows # rs \<Rightarrow> (Some rows, m, \<lparr>replies = rs, calls = calls r @ [c]\<rparr>)))"

text \<open>\<open>__init__\<close>: an absent or empty argument falls back to the configuration.\<close>

definition or_default :: "string option \<Rightarrow> string \<Rightarrow> string" where
  "or_default x dflt = (case x of None \<Rightarrow> dflt | Some v \<Rightarrow> if v = [] then dflt else v)"

definition MikroTikManager ::
  "config \<Rightarrow> string option \<Rightarrow> string option \<Rightarrow> string option \<Rightarrow> int \<Rightarrow> manager" where
  "MikroTikManager cfg h u p prt =
     \<lparr>host = or_default h (MIKROTIK_HOST cfg),
      username = or_default u (MIKROTIK_USERNAME cfg),
      password = or_default p (MIKROTIK_PASSWORD cfg),
      port = prt, api = False\<rparr>"

definition connect :: "unit rad" where
  "connect s =
     (case perform (Connect (host (fst s)) (port (fst s))) s of
        (None, s') \<Rightarrow> (None, s')
      | (Some _, m, r) \<Rightarrow> (Some (), m\<lparr>api := True\<rparr>, r))"

text \<open>\<open>_get_resource\<close> connects when there is no connection yet and hands out the path.\<close>

definition get_resource :: "string \<Rightarrow> string rad" where
  "get_resource path s =
     (if \<not> api (fst s) then bind_rad connect (\<lambda>_. return_rad path) s
      else return_rad path s)"

text \<open>\<open>row[key]\<close> raises \<open>KeyError\<close> on a missing key.\<close>

definition item :: "row \<Rightarrow> string \<Rightarrow> string rad" where
  "item rw k = (case map_of rw k of None \<Rightarrow> raise_rad | Some v \<Rightarrow> return_rad v)"

definition create_user :: "string \<Rightarrow> string \<Rightarrow> string \<Rightarrow> manager \<times> router \<Rightarrow> bool \<times> manager \<times> router"
  where
  "create_user uname pw profile_name =
     try_rad False
       (bind_rad (get_resource ''/user-manager/user'') (\<lambda>user_api.
        bind_rad (get_resource ''/user-manager/user-profile'') (\<lambda>user_prof_api.
        bind_rad (perform (Add user_api
                    [(''name'', Str uname), (''password'', Str pw),
                     (''attributes'', Dict [(''status'', ''active'')])])) (\<lambda>_.
        bind_rad (perform (Add user_prof_api
                    [(''user'', Str uname), (''profile'', Str profile_name)])) (\<lambda>_.
        return_rad True)))))"

text \<open>\<open>for x in rows: resource.remove(id=x['id'])\<close>\<close>

fun remove_each :: "string \<Rightarrow> row list \<Rightarrow> unit rad" where
  "remove_each path [] s = (Some (), s)"
| "remove_each path (x # xs) s =
     (case map_of x ''id'' of
        None \<Rightarrow> (None, s)
      | Some i \<Rightarrow>
          (case perform (Remove path [(''id'', Str i)]) s of
             (None, s') \<Rightarrow> (None, s')
           | (Some _, s') \<Rightarrow> remove_each path xs s'))"

definition disconnect_user_session :: "string \<Rightarrow> manager \<times> router \<Rightarrow> bool \<times> manager \<times> router"
  where
  "disconnect_user_session uname =
     try_rad False
       (bind_rad (get_resource ''/user-manager/session'') (\<lambda>session_api.
        bind_rad (perform (Get session_api [(''user'', Str uname), (''active'', Str ''true'')]))
          (\<lambda>sessions.
        bind_rad (remove_each session_api sessions) (\<lambda>_.
        return_rad True))))"

definition delete_user :: "string \<Rightarrow> manager \<times> router \<Rightarrow> bool \<times> manager \<times> router" where
  "delete_user uname =
     try_rad False
       (bind_rad (\<lambda>s. (Some (), snd (disconnect_user_session uname s))) (\<lambda>_.
        bind_rad (get_resource ''/user-manager/user'') (\<lambda>user_api.
        bind_rad (perform (Get user_api [(''name'', Str uname)])) (\<lambda>us.
        bind_rad (if us \<noteq> []
                  then bind_rad (item (hd us) ''id'') (\<lambda>i.
                       bind_rad (perform (Remove user_api [(''id'', Str i)])) (\<lambda>_.
                       return_rad ()))
                  else return_rad ()) (\<lambda>_.
        bind_rad (get_resource ''/user-manager/user-profile'') (\<lambda>up_api.
        bind_rad (perform (Get up_api [(''user'', Str uname)])) (\<lambda>ups.
        bind_rad (remove_each up_api ups) (\<lambda>_.
        return_rad True))))))))"

text \<open>The dictionary that \<open>get_user_info\<close> returns.\<close>

record user_info =
  ui_username :: string
  ui_password :: "string option"
  used_bytes :: int
  ui_status :: string
  ui_is_active :: bool
  connected_devices :: nat
  current_ip :: "string option"

text \<open>\<open>int(row.get(key, 0))\<close>\<close>

definition int_field :: "builtins \<Rightarrow> row \<Rightarrow> string \<Rightarrow> int rad" where
  "int_field B rw k =
     (case map_of rw k of
        None \<Rightarrow> return_rad 0
      | Some v \<Rightarrow> (case py_int B v of None \<Rightarrow> raise_rad | Some n \<Rightarrow> return_rad n))"

definition get_user_info ::
  "builtins \<Rightarrow> string \<Rightarrow> manager \<times> router \<Rightarrow> user_info option \<times> manager \<times> router" where
  "get_user_info B uname =
     try_rad None
       (bind_rad (get_resource ''/user-manager/user'') (\<lambda>user_api.
        bind_rad (perform (Get user_api [(''name'', Str uname)])) (\<lambda>us.
        if us = [] then return_rad None
        else
          bind_rad (get_resource ''/user-manager/session'') (\<lambda>session_api.
          bind_rad (perform (Get session_api [(''user'', Str uname), (''active'', Str ''true'')]))
            (\<lambda>sessions.
          bind_rad (int_field B (hd us) ''download-used'') (\<lambda>download_used.
          bind_rad (int_field B (hd us) ''upload-used'') (\<lambda>upload_used.
          return_rad (Some
            \<lparr>ui_username = uname,
             ui_password = map_of (hd us) ''password'',
             used_bytes = download_used + upload_used,
             ui_status = (if map_of (hd us) ''disabled'' = Some ''true'' then ''banned''
                          else ''active''),
             ui_is_active = (map_of (hd us) ''disabled'' \<noteq> Some ''true''),
             connected_devices = length sessions,
             current_ip = (if length sessions > 0 then map_of (hd sessions) ''address''
                           else None)\<rparr>))))))))"

definition add_data_to_user ::
  "builtins \<Rightarrow> string \<Rightarrow> int \<Rightarrow> manager \<times> router \<Rightarrow> bool \<times> manager \<times> router" where
  "add_data_to_user B uname additional_gb =
     try_rad False
       (bind_rad (get_resource ''/user-manager/limitation'') (\<lambda>lim_api.
        bind_rad (perform (Get lim_api [(''name'', Str uname)])) (\<lambda>lims.
        if lims \<noteq> [] then
          bind_rad (int_field B (hd lims) ''total-limit'') (\<lambda>current_limit.
          bind_rad (item (hd lims) ''id'') (\<lambda>i.
          bind_rad (perform (Set lim_api
                      [(''id'', Str i),
                       (''total-limit'', Str (str_int (current_limit + additional_gb * 1024 ^ 3)))]))
            (\<lambda>_.
          return_rad True)))
        else return_rad False)))"

definition enable_user :: "string \<Rightarrow> manager \<times> router \<Rightarrow> bool \<times> manager \<times> router" where
  "enable_user uname =
     try_rad False
       (bind_rad (get_resource ''/user-manager/user'') (\<lambda>user_api.
        bind_rad (perform (Get user_api [(''name'', Str uname)])) (\<lambda>us.
        bind_rad (if us \<noteq> []
                  then bind_rad (item (hd us) ''id'') (\<lambda>i.
                       bind_rad (perform (Set user_api [(''id'', Str i), (''disabled'', Str ''false'')]))
                         (\<lambda>_.
                       return_rad ()))
                  else return_rad ()) (\<lambda>_.
        return_rad True))))"

definition extend_validity ::
  "string \<Rightarrow> int \<Rightarrow> manager \<times> router \<Rightarrow> bool \<times> manager \<times> router" where
  "extend_validity uname additional_days =
     try_rad False
       (bind_rad (get_resource ''/user-manager/user-profile'') (\<lambda>up_api.
        bind_rad (perform (Get up_api [(''user'', Str uname)])) (\<lambda>ups.
        if ups \<noteq> [] then
          bind_rad (item (hd ups) ''profile'') (\<lambda>p_name.
          bind_rad (perform (Add up_api [(''user'', Str uname), (''profile'', Str p_name)])) (\<lambda>_.
          return_rad True))
        else return_rad False)))"


section \<open>Handlers\<close>

text \<open>
  A handler that has no \<open>try\<close> of its own lets an exception escape to the
  framework; what its session had not committed is then lost. \<open>AttributeError\<close>
  is the attribute access on a row that was not found, \<open>NameError\<close> the use of a
  name the module does not bind, \<open>DBError\<close> a commit that raised.
\<close>

datatype exn = AttributeError | NameError | DBError

definition get_profile :: "int \<Rightarrow> db \<Rightarrow> profile option" where
  "get_profile i d = find (\<lambda>p. pid p = i) (profiles d)"

definition get_subscription :: "int \<Rightarrow> db \<Rightarrow> subscription option" where
  "get_subscription i d = find (\<lambda>s. sid s = i) (subscriptions d)"

definition get_server :: "int \<Rightarrow> db \<Rightarrow> server option" where
  "get_server i d = find (\<lambda>s. srv_id s = i) (servers d)"

definition user_by_telegram_id :: "int \<Rightarrow> db \<Rightarrow> user option" where
  "user_by_telegram_id t d = find (\<lambda>u. telegram_id u = t) (users d)"

text \<open>
  The key an integer primary key gives the next row: one more than the largest key in
  use, and 1 in an empty table.
\<close>

definition next_id :: "int list \<Rightarrow> int" where
  "next_id ids = (case ids of [] \<Rightarrow> 1 | x # xs \<Rightarrow> foldr max xs x + 1)"

text \<open>\<open>timedelta(days=n)\<close>, in microseconds.\<close>

definition timedelta_days :: "int \<Rightarrow> int" where
  "timedelta_days n = n * 86400000000"

text \<open>\<open>int(dt.timestamp())\<close>: whole seconds, truncated towards zero.\<close>

definition timestamp_int :: "datetime \<Rightarrow> int" where
  "timestamp_int t = (if 0 \<le> t then t div 1000000 else - ((- t) div 1000000))"

subsection \<open>bot\_handler.py\<close>

text \<open>\<open>start\<close> makes sure the caller has a row in \<open>users\<close>, then draws the menu.\<close>

definition start :: "bool \<Rightarrow> int \<Rightarrow> db \<Rightarrow> (exn + unit) \<times> db" where
  "start db_ok tg d =
     (case user_by_telegram_id tg d of
        Some _ \<Rightarrow> (Inr (), d)
      | None \<Rightarrow>
          if db_ok then
            (Inr (),
             d\<lparr>users := users d @
                 [\<lparr>uid = next_id (map uid (users d)), telegram_id = tg, wallet_balance = 0\<rparr>]\<rparr>)
          else (Inl DBError, d))"

datatype purchase_result = PaymentFailed | TechnicalError | PurchaseSuccessful subscription

text \<open>
  \<open>process_purchase_flow\<close>, the branch for \<open>confirm_pay\<close>. From the environment:
  whether the sessions of \<open>deduct\<close> and \<open>start\<close> and the handler's own commit go
  through, the two readings of the clock, and the random password. The delivery of the
  configuration files after the commit is the front end's and is not modelled.
\<close>

definition process_purchase_flow ::
  "builtins \<Rightarrow> config \<Rightarrow> bool \<Rightarrow> bool \<Rightarrow> bool \<Rightarrow> datetime \<Rightarrow> datetime \<Rightarrow> string \<Rightarrow> int \<Rightarrow> int \<Rightarrow>
     db \<times> router \<Rightarrow> (exn + purchase_result) \<times> db \<times> router" where
  "process_purchase_flow B cfg deduct_ok start_ok commit_ok now1 now2 pw profile_id user_id s =
     (case s of (d, r) \<Rightarrow>
      (case (get_profile profile_id d, user_by_telegram_id user_id d) of
         (Some prof, Some u) \<Rightarrow>
           (case deduct B deduct_ok (uid u) (price prof) (''Purchase: '' @ prof_name prof) d of
              (False, d1) \<Rightarrow>
                (case start start_ok user_id d1 of
                   (Inl e, d2) \<Rightarrow> (Inl e, d2, r)
                 | (Inr _, d2) \<Rightarrow> (Inr PaymentFailed, d2, r))
            | (True, d1) \<Rightarrow>
                (let stamp = str_int (uid u) @ ''_'' @ str_int (timestamp_int now1);
                     uname = CHR ''u'' # drop (length stamp - 8) stamp
                 in case create_user uname pw (prof_name prof)
                           (MikroTikManager cfg None None None 8728, r) of
                      (False, m, r1) \<Rightarrow> (Inr TechnicalError, d1, r1)
                    | (True, m, r1) \<Rightarrow>
                        (let sub = \<lparr>sid = next_id (map sid (subscriptions d1)),
                                    sub_user_id = uid u,
                                    sub_server_id = prof_server_id prof,
                                    sub_profile_id = pid prof,
                                    mikrotik_username = uname,
                                    mikrotik_password = pw,
                                    expiry_date = now2 + timedelta_days (validity_days prof),
                                    total_limit_bytes = data_limit_gb prof * 1024 ^ 3\<rparr>
                         in if commit_ok \<and> uname \<notin> set (map mikrotik_username (subscriptions d1))
                            then (Inr (PurchaseSuccessful sub),
                                  d1\<lparr>subscriptions := subscriptions d1 @ [sub]\<rparr>, r1)
                            else (Inl DBError, d1, r1))))
       | _ \<Rightarrow> (Inl AttributeError, d, r)))"

subsection \<open>user\_features.py\<close>

text \<open>\<open>name.split(sep)[0]\<close>: the text before the first occurrence of \<open>sep\<close>.\<close>

fun before_sep :: "string \<Rightarrow> string \<Rightarrow> string" where
  "before_sep sep [] = []"
| "before_sep sep (c # cs) =
     (if take (length sep) (c # cs) = sep then [] else c # before_sep sep cs)"

text \<open>
  SQL \<open>LIKE\<close>: \<open>%\<close> stands for any text, \<open>_\<close> for any one character; ASCII
  letters match without regard to case, as in SQLite, the configured default database.
\<close>

definition ascii_lower :: "char \<Rightarrow> char" where
  "ascii_lower c =
     (case map_of (zip ''ABCDEFGHIJKLMNOPQRSTUVWXYZ'' ''abcdefghijklmnopqrstuvwxyz'') c of
        None \<Rightarrow> c | Some l \<Rightarrow> l)"

fun sql_like :: "string \<Rightarrow> string \<Rightarrow> bool" where
  "sql_like [] [] = True"
| "sql_like [] (c # cs) = False"
| "sql_like (p # ps) [] = (p = CHR ''%'' \<and> sql_like ps [])"
| "sql_like (p # ps) (c # cs) =
     (if p = CHR ''%'' then sql_like ps (c # cs) \<or> sql_like (p # ps) cs
      else (p = CHR ''_'' \<or> ascii_lower p = ascii_lower c) \<and> sql_like ps cs)"

text \<open>
  The query of \<open>renew_subscription\<close> for a newer version: profiles of the same server
  whose name starts like the base name, highest version first (among equal versions the
  earliest row).
\<close>

definition latest_profile :: "profile \<Rightarrow> db \<Rightarrow> profile option" where
  "latest_profile prof d =
     (case filter (\<lambda>p. sql_like (before_sep ''_v'' (prof_name prof) @ ''%'') (prof_name p)
                        \<and> prof_server_id p = prof_server_id prof) (profiles d) of
        [] \<Rightarrow> None
      | p # ps \<Rightarrow> Some (foldl (\<lambda>best q. if version best < version q then q else best) p ps))"

datatype renew_prompt =
    RenewUserNotFound
  | RenewSubscriptionNotFound
  | PlanNoLongerAvailable
  | InsufficientBalance profile real
  | ConfirmRenewal profile datetime

text \<open>\<open>renew_subscription\<close> only reads; it returns what it shows.\<close>

definition renew_subscription ::
  "builtins \<Rightarrow> datetime \<Rightarrow> datetime \<Rightarrow> int \<Rightarrow> int \<Rightarrow> db \<Rightarrow> renew_prompt" where
  "renew_subscription B now1 now2 sub_id user_id d =
     (case user_by_telegram_id user_id d of
        None \<Rightarrow> RenewUserNotFound
      | Some u \<Rightarrow>
          (case get_subscription sub_id d of
             None \<Rightarrow> RenewSubscriptionNotFound
           | Some sub \<Rightarrow>
               if sub_user_id sub \<noteq> uid u then RenewSubscriptionNotFound
               else
                 (case get_profile (sub_profile_id sub) d of
                    None \<Rightarrow> PlanNoLongerAvailable
                  | Some prof0 \<Rightarrow>
                      (let prof = (case latest_profile prof0 d of
                                     None \<Rightarrow> prof0
                                   | Some l \<Rightarrow> if pid l \<noteq> pid prof0 then l else prof0)
                       in if wallet_balance u < price prof
                          then InsufficientBalance prof (float_sub B (price prof) (wallet_balance u))
                          else ConfirmRenewal prof
                                 (if expiry_date sub < now1
                                  then now2 + timedelta_days (validity_days prof)
                                  else expiry_date sub + timedelta_days (validity_days prof))))))"

datatype renewal_result = RenewalPaymentFailed | RenewalSuccessful

definition set_expiry_date :: "int \<Rightarrow> datetime \<Rightarrow> db \<Rightarrow> db" where
  "set_expiry_date i t d =
     d\<lparr>subscriptions :=
         map (\<lambda>s. if sid s = i then s\<lparr>expiry_date := t\<rparr> else s) (subscriptions d)\<rparr>"

text \<open>
  The block of \<open>confirm_renewal\<close> under \<open>if server:\<close>. It asks the router for
  the account, enables it and extends its validity when the subscription had expired or
  the account is disabled, and adds the data allowance. No result of these calls is
  looked at, except that nothing is done when \<open>get_user_info\<close> returns \<open>None\<close>.
\<close>

definition renew_on_router ::
  "builtins \<Rightarrow> config \<Rightarrow> server \<Rightarrow> string \<Rightarrow> profile \<Rightarrow> bool \<Rightarrow> router \<Rightarrow> router" where
  "renew_on_router B cfg srv uname prof was_expired r =
     (case get_user_info B uname
             (MikroTikManager cfg (Some (srv_host srv)) (Some (srv_username srv))
                (Some (srv_password srv)) (srv_port srv), r) of
        (None, s1) \<Rightarrow> snd s1
      | (Some info, s1) \<Rightarrow>
          (let s2 =
             (if was_expired \<or> \<not> ui_is_active info
              then snd (extend_validity uname (validity_days prof) (snd (enable_user uname s1)))
              else s1)
           in snd (snd (add_data_to_user B uname (data_limit_gb prof) s2))))"

text \<open>
  \<open>confirm_renewal\<close>. From the environment: whether the session of \<open>deduct\<close> and
  the handler's own commit go through, and the two readings of the clock.
\<close>

definition confirm_renewal ::
  "builtins \<Rightarrow> config \<Rightarrow> bool \<Rightarrow> bool \<Rightarrow> datetime \<Rightarrow> datetime \<Rightarrow> int \<Rightarrow> int \<Rightarrow>
     db \<times> router \<Rightarrow> (exn + renewal_result) \<times> db \<times> router" where
  "confirm_renewal B cfg deduct_ok commit_ok now1 now2 sub_id user_id s =
     (case s of (d, r) \<Rightarrow>
      (case (user_by_telegram_id user_id d, get_subscription sub_id d) of
         (Some u, Some sub) \<Rightarrow>
           (case get_profile (sub_profile_id sub) d of
              None \<Rightarrow> (Inl AttributeError, d, r)
            | Some prof \<Rightarrow>
                (case deduct B deduct_ok (uid u) (price prof) (''Renewal: '' @ prof_name prof) d of
                   (False, d1) \<Rightarrow> (Inr RenewalPaymentFailed, d1, r)
                 | (True, d1) \<Rightarrow>
                     (let was_expired = expiry_date sub < now1;
                          new_expiry =
                            (if was_expired then now2 + timedelta_days (validity_days prof)
                             else expiry_date sub + timedelta_days (validity_days prof));
                          r1 =
                            (case get_server (sub_server_id sub) d1 of
                               None \<Rightarrow> r
                             | Some srv \<Rightarrow>
                                 renew_on_router B cfg srv (mikrotik_username sub) prof
                                   was_expired r)
                      in if commit_ok
                         then (Inr RenewalSuccessful, set_expiry_date sub_id new_expiry d1, r1)
                         else (Inl DBError, d1, r1))))
       | _ \<Rightarrow> (Inl AttributeError, d, r)))"

subsection \<open>admin\_panel.py\<close>

text \<open>
  \<open>process_edit_balance\<close> converts the message to a float; a \<open>ValueError\<close> is
  answered with \<open>Invalid amount\<close>. Its next statement builds
  \<open>select(User)\<close>, and the module binds no name \<open>User\<close> (line 9 imports the
  class as \<open>DBUser\<close>): that raises \<open>NameError\<close>, which \<open>except ValueError\<close>
  lets through. The statements after it, which would set the balance and record a
  \<open>manual_adjustment\<close>, are never reached.
\<close>

datatype edit_balance_result = InvalidAmount

definition process_edit_balance ::
  "builtins \<Rightarrow> string \<Rightarrow> string \<Rightarrow> db \<Rightarrow> (exn + edit_balance_result) \<times> db" where
  "process_edit_balance B text uname d =
     (case py_float B (py_strip B text) of
        None \<Rightarrow> (Inr InvalidAmount, d)
      | Some new_balance \<Rightarrow> (Inl NameError, d))"

datatype delete_result = DeletedSuccessfully | DeleteFailedMikroTik | DeleteCancelled

text \<open>\<open>get_mikrotik_manager()\<close> without a server builds the manager of the defaults.\<close>

definition get_mikrotik_manager :: "config \<Rightarrow> manager" where
  "get_mikrotik_manager cfg = MikroTikManager cfg None None None 8728"

definition process_delete_confirm ::
  "builtins \<Rightarrow> config \<Rightarrow> bool \<Rightarrow> string \<Rightarrow> string \<Rightarrow> db \<times> router \<Rightarrow>
     (exn + delete_result) \<times> db \<times> router" where
  "process_delete_confirm B cfg commit_ok text uname s =
     (case s of (d, r) \<Rightarrow>
      if py_strip B text = ''DELETE'' then
        (case delete_user uname (get_mikrotik_manager cfg, r) of
           (True, m, r1) \<Rightarrow>
             (case find (\<lambda>s. mikrotik_username s = uname) (subscriptions d) of
                None \<Rightarrow> (Inr DeletedSuccessfully, d, r1)
              | Some sub \<Rightarrow>
                  if commit_ok then
                    (Inr DeletedSuccessfully,
                     d\<lparr>subscriptions := filter (\<lambda>s. sid s \<noteq> sid sub) (subscriptions d)\<rparr>, r1)
                  else (Inl DBError, d, r1))
         | (False, m, r1) \<Rightarrow> (Inr DeleteFailedMikroTik, d, r1))
      else (Inr DeleteCancelled, d, r))"


section \<open>The ledger and sequences of operations\<close>

text \<open>The amounts of the Transaction rows recorded for an account, in the order of the rows.\<close>

definition ledger :: "int \<Rightarrow> db \<Rightarrow> real list" where
  "ledger i d = map amount (filter (\<lambda>t. txn_user_id t = i) (transactions d))"

text \<open>
  Their running sum: starting from 0, each amount is added with the float addition, as
  the balance itself was built up.
\<close>

definition running_sum :: "builtins \<Rightarrow> int \<Rightarrow> db \<Rightarrow> real" where
  "running_sum B i d = foldl (float_add B) 0 (ledger i d)"

text \<open>
  The cached balance of account \<open>i\<close> agrees with the running sum of its ledger; an
  account that has no row yet has a running sum of 0.
\<close>

definition balance_matches_ledger :: "builtins \<Rightarrow> int \<Rightarrow> db \<Rightarrow> bool" where
  "balance_matches_ledger B i d =
     (case get_user i d of
        None \<Rightarrow> running_sum B i d = 0
      | Some u \<Rightarrow> wallet_balance u = running_sum B i d)"

text \<open>
  In IEEE arithmetic the difference \<open>x - y\<close> is the sum of \<open>x\<close> and the
  negation of \<open>y\<close>.
\<close>

definition sub_by_negation :: "builtins \<Rightarrow> bool" where
  "sub_by_negation B = (\<forall>x y. float_sub B x y = float_add B x (- y))"

text \<open>
  The agreement read in exact arithmetic: the cached balance is the sum of the amounts
  as real numbers.
\<close>

definition balance_equals_sum :: "int \<Rightarrow> db \<Rightarrow> bool" where
  "balance_equals_sum i d =
     (case get_user i d of
        None \<Rightarrow> sum_list (ledger i d) = 0
      | Some u \<Rightarrow> wallet_balance u = sum_list (ledger i d))"

text \<open>
  One call of an operation, with its arguments and the answers of its environment, in
  the order of the parameters of the operation itself.
\<close>

datatype operation =
    Deposit bool int real string
  | Deduct bool int real string
  | ApproveReceipt bool bool int int
  | RejectReceipt bool int int string
  | EditBalance string string
  | Start bool int
  | Purchase bool bool bool datetime datetime string int int
  | ConfirmRenewal_op bool bool datetime datetime int int
  | DeleteConfirm bool string string

fun apply_operation :: "builtins \<Rightarrow> config \<Rightarrow> operation \<Rightarrow> db \<times> router \<Rightarrow> db \<times> router" where
  "apply_operation B cfg (Deposit ok i a descr) (d, r) = (snd (deposit B ok i a descr d), r)"
| "apply_operation B cfg (Deduct ok i a descr) (d, r) = (snd (deduct B ok i a descr d), r)"
| "apply_operation B cfg (ApproveReceipt ok ok' i a) (d, r) =
     (snd (approve_receipt B ok ok' i a d), r)"
| "apply_operation B cfg (RejectReceipt ok i a reason) (d, r) = (snd (reject_receipt ok i a reason d), r)"
| "apply_operation B cfg (EditBalance text uname) (d, r) =
     (snd (process_edit_balance B text uname d), r)"
| "apply_operation B cfg (Start ok tg) (d, r) = (snd (start ok tg d), r)"
| "apply_operation B cfg (Purchase ok1 ok2 ok3 now1 now2 pw p tg) (d, r) =
     snd (process_purchase_flow B cfg ok1 ok2 ok3 now1 now2 pw p tg (d, r))"
| "apply_operation B cfg (ConfirmRenewal_op ok1 ok2 now1 now2 s tg) (d, r) =
     snd (confirm_renewal B cfg ok1 ok2 now1 now2 s tg (d, r))"
| "apply_operation B cfg (DeleteConfirm ok text uname) (d, r) =
     snd (process_delete_confirm B cfg ok text uname (d, r))"

fun run_operations :: "builtins \<Rightarrow> config \<Rightarrow> operation list \<Rightarrow> db \<times> router \<Rightarrow> db \<times> router" where
  "run_operations B cfg [] s = s"
| "run_operations B cfg (x # xs) s = run_operations B cfg xs (apply_operation B cfg x s)"

section \<open>The conversation with the router\<close>

text \<open>
  Every network operation appends its call to the log and takes one reply from the
  script. So the calls made between a router state \<open>r\<close> and a later state \<open>r'\<close>
  pair up, in order, with the replies that \<open>r\<close> still held: \<open>exchanges r r'\<close> is
  that list of calls, each with the reply it received. \<open>continues r r'\<close> says that
  \<open>r'\<close> is such a later state of \<open>r\<close>.
\<close>

definition exchanges :: "router \<Rightarrow> router \<Rightarrow> (api_call \<times> reply) list" where
  "exchanges r r' = zip (drop (length (calls r)) (calls r')) (replies r)"

definition continues :: "router \<Rightarrow> router \<Rightarrow> bool" where
  "continues r r' =
     (\<exists>cs. calls r' = calls r @ cs \<and> replies r' = drop (length cs) (replies r))"

text \<open>A method or a step of one is steady when it only ever continues the conversation.\<close>

definition steady :: "(manager \<times> router \<Rightarrow> 'a \<times> manager \<times> router) \<Rightarrow> bool" where
  "steady f = (\<forall>s. continues (snd s) (snd (snd (f s))))"

section \<open>A concrete store\<close>

text \<open>
  One user with a balance of 50 from an approved receipt, one server, the plans
  \<open>Basic\<close>, its successor \<open>Basic_v2\<close> and \<open>Premium\<close>, one subscription to \<open>Basic\<close> that
  expires at \<open>1000\<close>, and a second receipt that is still pending.
\<close>

definition basic_v1 :: profile where
  "basic_v1 = \<lparr>pid = 1, prof_name = ''Basic'', version = 1, price = 30, validity_days = 30,
               data_limit_gb = 10, prof_server_id = 1, is_active = True\<rparr>"

definition basic_v2 :: profile where
  "basic_v2 = \<lparr>pid = 2, prof_name = ''Basic_v2'', version = 2, price = 40, validity_days = 60,
               data_limit_gb = 20, prof_server_id = 1, is_active = True\<rparr>"

definition premium :: profile where
  "premium = \<lparr>pid = 3, prof_name = ''Premium'', version = 1, price = 80, validity_days = 90,
              data_limit_gb = 100, prof_server_id = 1, is_active = True\<rparr>"

definition sub1 :: subscription where
  "sub1 = \<lparr>sid = 1, sub_user_id = 1, sub_server_id = 1, sub_profile_id = 1,
            mikrotik_username = ''u00000001'', mikrotik_password = ''secret'',
            expiry_date = 1000, total_limit_bytes = 10 * 1024 ^ 3\<rparr>"

definition db0 :: db where
  "db0 =
     \<lparr>users = [\<lparr>uid = 1, telegram_id = 1001, wallet_balance = 50\<rparr>],
      servers = [\<lparr>srv_id = 1, srv_host = ''10.0.0.1'', srv_username = ''admin'',
                  srv_password = ''pw'', srv_port = 8728\<rparr>],
      profiles = [basic_v1, basic_v2, premium],
      subscriptions = [sub1],
      transactions = [\<lparr>txn_user_id = 1, amount = 50, txn_type = ''deposit'',
                       description = ''Receipt #1''\<rparr>],
      payment_receipts =
        [\<lparr>rid = 1, rcp_user_id = 1, rcp_amount = 50, status = ''approved'',
          admin_note = Some ''Approved by 7''\<rparr>,
         \<lparr>rid = 2, rcp_user_id = 1, rcp_amount = 25, status = ''pending'',
          admin_note = None\<rparr>]\<rparr>"

definition cfg0 :: config where
  "cfg0 = \<lparr>MIKROTIK_HOST = ''192.168.88.1'', MIKROTIK_USERNAME = ''admin'',
           MIKROTIK_PASSWORD = []\<rparr>"

text \<open>A router that cannot be reached: every operation raises.\<close>

definition unreachable :: router where
  "unreachable = \<lparr>replies = [], calls = []\<rparr>"

text \<open>
  A router that answers: the connection opens, the account exists and is enabled, it has
  no session, and it has a limitation of its own with a limit of 0.
\<close>

definition router1 :: router where
  "router1 =
     \<lparr>replies = [Returns [], Returns [[(''id'', ''*1'')]], Returns [],
                 Returns [[(''id'', ''*5''), (''total-limit'', ''0'')]], Returns []],
      calls = []\<rparr>"

text \<open>
  A router on which the account \<open>u00000001\<close> exists: the connection opens, the
  account has no session, the lookup lists it under the id \<open>*1\<close>, its removal is
  answered, and so are the lookup and the removal of its one profile assignment.
\<close>

definition router2 :: router where
  "router2 =
     \<lparr>replies = [Returns [], Returns [], Returns [[(''id'', ''*1'')]], Returns [],
                 Returns [[(''id'', ''*9'')]], Returns []],
      calls = []\<rparr>"

text \<open>A router that answers every question with an empty list: it knows no such account.\<close>

definition router3 :: router where
  "router3 = \<lparr>replies = [Returns [], Returns [], Returns [], Returns []], calls = []\<rparr>"

text \<open>
  Built-ins for the runs below: double precision for the sums and differences, and
  conversions that read the few texts used.
\<close>

definition B0 :: builtins where
  "B0 = \<lparr>py_int = (\<lambda>s. if s = ''0'' then Some 0 else None),
          py_float = (\<lambda>s. if s = ''20'' then Some 20 else None),
          py_strip = (\<lambda>s. if s = '' DELETE '' then ''DELETE'' else s),
          float_add = float64_add,
          float_sub = float64_sub\<rparr>"

text \<open>
  A store with one account that has never been credited, and the doubles nearest to 0.1
  and to 0.2.
\<close>

definition db_new :: db where
  "db_new =
     \<lparr>users = [\<lparr>uid = 1, telegram_id = 1001, wallet_balance = 0\<rparr>],
      servers = [], profiles = [], subscriptions = [], transactions = [],
      payment_receipts = []\<rparr>"

definition tenth :: real where
  "tenth = 3602879701896397 / 36028797018963968"

definition fifth :: real where
  "fifth = 3602879701896397 / 18014398509481984"

section \<open>Basic facts about the store\<close>

lemma find_uid_map:
  "find (\<lambda>u. uid u = i) (map (\<lambda>u. if uid u = j then u\<lparr>wallet_balance := b\<rparr> else u) us) =
     map_option (\<lambda>u. if uid u = j then u\<lparr>wallet_balance := b\<rparr> else u)
       (find (\<lambda>u. uid u = i) us)"
  by (induction us) auto

lemma get_user_set_wallet_balance:
  "get_user i (set_wallet_balance j b d) =
     map_option (\<lambda>u. if uid u = j then u\<lparr>wallet_balance := b\<rparr> else u) (get_user i d)"
  by (simp add: get_user_def set_wallet_balance_def find_uid_map)

lemma get_user_add_txn [simp]: "get_user i (add_txn t d) = get_user i d"
  by (simp add: get_user_def add_txn_def)

lemma get_user_uid: "get_user i d = Some u \<Longrightarrow> uid u = i"
  by (auto simp: get_user_def find_Some_iff)

lemma find_distinct_key:
  "distinct (map f xs) \<Longrightarrow> x \<in> set xs \<Longrightarrow> find (\<lambda>y. f y = f x) xs = Some x"
  by (induction xs) (auto simp: image_iff)

lemma get_user_distinct:
  "distinct (map uid (users d)) \<Longrightarrow> u \<in> set (users d) \<Longrightarrow> get_user (uid u) d = Some u"
  by (simp add: get_user_def find_distinct_key)

lemma user_by_telegram_id_in:
  "user_by_telegram_id tg d = Some u \<Longrightarrow> u \<in> set (users d)"
  by (auto simp: user_by_telegram_id_def find_Some_iff)

lemma find_snoc:
  "find P (xs @ [x]) = (case find P xs of None \<Rightarrow> if P x then Some x else None | Some y \<Rightarrow> Some y)"
  by (induction xs) auto

lemma le_foldr_max: "x \<in> set ids \<Longrightarrow> x \<le> foldr max ids (y::int)"
  by (induction ids) auto

lemma foldr_max_ge: "y \<le> foldr max ids (y::int)"
  by (induction ids) auto

lemma next_id_fresh: "next_id ids \<notin> set ids"
proof (cases ids)
  case Nil
  then show ?thesis by simp
next
  case (Cons x xs)
  have "z \<le> foldr max xs x" if "z \<in> set ids" for z
    using that Cons le_foldr_max [of z xs x] foldr_max_ge [of x xs] by auto
  from this [of "next_id ids"] show ?thesis
    by (auto simp: next_id_def Cons)
qed

lemma map_uid_set_wallet_balance [simp]:
  "map uid (users (set_wallet_balance j b d)) = map uid (users d)"
  by (simp add: set_wallet_balance_def comp_def)

lemma users_add_txn [simp]: "users (add_txn t d) = users d"
  by (simp add: add_txn_def)

lemma users_update_receipt [simp]: "users (update_receipt k st nt d) = users d"
  by (simp add: update_receipt_def)

lemma transactions_update_receipt [simp]:
  "transactions (update_receipt k st nt d) = transactions d"
  by (simp add: update_receipt_def)

section \<open>The running sum is kept by every operation\<close>

lemma ledger_add_txn:
  "ledger i (add_txn t d) = ledger i d @ (if txn_user_id t = i then [amount t] else [])"
  by (simp add: ledger_def add_txn_def)

lemma ledger_set_wallet_balance [simp]: "ledger i (set_wallet_balance j b d) = ledger i d"
  by (simp add: ledger_def set_wallet_balance_def)

lemma running_sum_add_txn:
  "running_sum B i (add_txn t d) =
     (if txn_user_id t = i then float_add B (running_sum B i d) (amount t)
      else running_sum B i d)"
  by (simp add: running_sum_def ledger_add_txn)

lemma running_sum_set_wallet_balance [simp]:
  "running_sum B i (set_wallet_balance j b d) = running_sum B i d"
  by (simp add: running_sum_def)

text \<open>Recording a change of balance together with its ledger entry.\<close>

lemma post_entry_matches:
  assumes "balance_matches_ledger B i d" and "get_user j d = Some u"
  shows "balance_matches_ledger B i
           (add_txn \<lparr>txn_user_id = j, amount = a, txn_type = ty, description = ds\<rparr>
              (set_wallet_balance j (float_add B (wallet_balance u) a) d))"
proof (cases "i = j")
  case True
  with assms show ?thesis
    by (simp add: balance_matches_ledger_def get_user_set_wallet_balance running_sum_add_txn
        get_user_uid)
next
  case False
  with assms show ?thesis
    by (auto simp: balance_matches_ledger_def get_user_set_wallet_balance running_sum_add_txn
        dest: get_user_uid split: option.splits)
qed

lemma deposit_matches:
  "balance_matches_ledger B i d \<Longrightarrow> balance_matches_ledger B i (snd (deposit B ok j a ds d))"
  by (auto simp: deposit_def post_entry_matches split: option.splits)

lemma deduct_matches:
  assumes "sub_by_negation B" and "balance_matches_ledger B i d"
  shows "balance_matches_ledger B i (snd (deduct B ok j a ds d))"
proof -
  have "float_sub B x a = float_add B x (- a)" for x
    using assms(1) by (simp add: sub_by_negation_def)
  then show ?thesis
    using assms(2) post_entry_matches [of B i d j _ "- a"]
    by (auto simp: deduct_def split: option.splits)
qed

lemma same_ledger:
  "users d' = users d \<Longrightarrow> transactions d' = transactions d \<Longrightarrow>
     balance_matches_ledger B i d' = balance_matches_ledger B i d"
  by (simp add: balance_matches_ledger_def get_user_def running_sum_def ledger_def
      split: option.splits)

lemma update_receipt_matches [simp]:
  "balance_matches_ledger B i (update_receipt k st nt d) = balance_matches_ledger B i d"
  by (rule same_ledger) (simp_all add: update_receipt_def)

lemma approve_receipt_matches:
  assumes "balance_matches_ledger B i d"
  shows "balance_matches_ledger B i (snd (approve_receipt B ok ok' k a d))"
proof -
  have "balance_matches_ledger B i (snd (deposit B ok' j x ds (update_receipt k st nt d)))"
    for j x ds st nt
    using assms by (intro deposit_matches) simp
  with assms show ?thesis
    by (simp add: approve_receipt_def split: option.splits)
qed

lemma reject_receipt_matches:
  "balance_matches_ledger B i d \<Longrightarrow>
     balance_matches_ledger B i (snd (reject_receipt ok k a reason d))"
  by (simp add: reject_receipt_def split: option.splits)

lemma map_uid_deposit [simp]:
  "map uid (users (snd (deposit B ok j a ds d))) = map uid (users d)"
  by (simp add: deposit_def split: option.splits)

lemma map_uid_deduct [simp]:
  "map uid (users (snd (deduct B ok j a ds d))) = map uid (users d)"
  by (simp add: deduct_def split: option.splits)

lemma map_uid_approve_receipt [simp]:
  "map uid (users (snd (approve_receipt B ok ok' k a d))) = map uid (users d)"
  by (simp add: approve_receipt_def split: option.splits)

lemma map_uid_reject_receipt [simp]:
  "map uid (users (snd (reject_receipt ok k a reason d))) = map uid (users d)"
  by (simp add: reject_receipt_def split: option.splits)

lemma process_edit_balance_writes_nothing [simp]:
  "snd (process_edit_balance B msg uname d) = d"
  by (simp add: process_edit_balance_def split: option.splits)

lemma start_matches:
  assumes "balance_matches_ledger B i d"
  shows "balance_matches_ledger B i (snd (start ok tg d))"
  using assms
  by (auto simp: start_def balance_matches_ledger_def get_user_def find_snoc running_sum_def
      ledger_def split: option.splits)

lemma start_distinct:
  "distinct (map uid (users d)) \<Longrightarrow> distinct (map uid (users (snd (start ok tg d))))"
  using next_id_fresh [of "map uid (users d)"]
  by (auto simp: start_def split: option.splits)

lemma subscriptions_update_matches [simp]:
  "balance_matches_ledger B i (d\<lparr>subscriptions := x\<rparr>) = balance_matches_ledger B i d"
  by (rule same_ledger) simp_all

lemma set_expiry_date_matches [simp]:
  "balance_matches_ledger B i (set_expiry_date k t d) = balance_matches_ledger B i d"
  by (rule same_ledger) (simp_all add: set_expiry_date_def)

text \<open>The two facts carried through a sequence of operations.\<close>

lemma deduct_keeps:
  assumes "deduct B ok j a ds d = (b, d1)" and "sub_by_negation B"
    and "distinct (map uid (users d)) \<and> balance_matches_ledger B i d"
  shows "distinct (map uid (users d1)) \<and> balance_matches_ledger B i d1"
  using assms deduct_matches [of B i d ok j a ds] map_uid_deduct [of B ok j a ds d] by auto

lemma start_keeps:
  assumes "start ok tg d = (b, d1)"
    and "distinct (map uid (users d)) \<and> balance_matches_ledger B i d"
  shows "distinct (map uid (users d1)) \<and> balance_matches_ledger B i d1"
  using assms start_matches [of B i d ok tg] start_distinct [of d ok tg] by auto

lemma process_purchase_flow_keeps:
  assumes "sub_by_negation B"
    and "distinct (map uid (users d)) \<and> balance_matches_ledger B i d"
  shows "distinct (map uid (users (fst (snd (process_purchase_flow B cfg ok1 ok2 ok3 now1 now2 pw p tg (d, r))))))
       \<and> balance_matches_ledger B i (fst (snd (process_purchase_flow B cfg ok1 ok2 ok3 now1 now2 pw p tg (d, r))))"
  using assms
  by (auto simp: process_purchase_flow_def Let_def
      split: option.splits prod.splits bool.splits sum.splits
      dest: deduct_keeps start_keeps)

lemma confirm_renewal_keeps:
  assumes "sub_by_negation B"
    and "distinct (map uid (users d)) \<and> balance_matches_ledger B i d"
  shows "distinct (map uid (users (fst (snd (confirm_renewal B cfg ok1 ok2 now1 now2 k tg (d, r))))))
       \<and> balance_matches_ledger B i (fst (snd (confirm_renewal B cfg ok1 ok2 now1 now2 k tg (d, r))))"
  using assms
  by (auto simp: confirm_renewal_def Let_def set_expiry_date_def
      split: option.splits prod.splits bool.splits
      dest: deduct_keeps)

lemma process_delete_confirm_keeps:
  assumes "distinct (map uid (users d)) \<and> balance_matches_ledger B i d"
  shows "distinct (map uid (users (fst (snd (process_delete_confirm B cfg ok msg uname (d, r))))))
       \<and> balance_matches_ledger B i (fst (snd (process_delete_confirm B cfg ok msg uname (d, r))))"
  using assms
  by (auto simp: process_delete_confirm_def split: option.splits prod.splits bool.splits)

lemma apply_operation_keeps:
  assumes "sub_by_negation B"
    and "distinct (map uid (users (fst s))) \<and> balance_matches_ledger B i (fst s)"
  shows "distinct (map uid (users (fst (apply_operation B cfg x s))))
       \<and> balance_matches_ledger B i (fst (apply_operation B cfg x s))"
proof (cases s)
  case (Pair d r)
  with assms have P: "distinct (map uid (users d)) \<and> balance_matches_ledger B i d" by simp
  show ?thesis
  proof (cases x)
    case (Purchase ok1 ok2 ok3 now1 now2 pw p tg)
    with Pair process_purchase_flow_keeps [OF assms(1) P] show ?thesis by simp
  next
    case (ConfirmRenewal_op ok1 ok2 now1 now2 k tg)
    with Pair confirm_renewal_keeps [OF assms(1) P] show ?thesis by simp
  next
    case (DeleteConfirm ok msg uname)
    with Pair process_delete_confirm_keeps [OF P] show ?thesis by simp
  qed (use Pair P assms(1) in \<open>simp_all add: deposit_matches deduct_matches
        approve_receipt_matches reject_receipt_matches start_matches start_distinct\<close>)
qed

lemma run_operations_keeps:
  "sub_by_negation B \<Longrightarrow>
   distinct (map uid (users (fst s))) \<and> balance_matches_ledger B i (fst s) \<Longrightarrow>
     distinct (map uid (users (fst (run_operations B cfg xs s))))
     \<and> balance_matches_ledger B i (fst (run_operations B cfg xs s))"
proof (induction xs arbitrary: s)
  case Nil
  then show ?case by simp
next
  case (Cons x xs)
  from Cons.IH [OF Cons.prems(1) apply_operation_keeps [OF Cons.prems]] show ?case by simp
qed

section \<open>Facts about double precision and the concrete built-ins\<close>

lemma binade_numeral:
  "binade (numeral k) x =
     (if x < 4503599627370496 then binade (pred_numeral k) (2 * x) - 1
      else if 9007199254740992 \<le> x then binade (pred_numeral k) (x / 2) + 1
      else 0)"
  by (simp add: numeral_eq_Suc)

lemma float64_values:
  "float64_sub 50 30 = 20"
  "float64_add 50 (- 60) = - 10"
  "float64_add 0 50 = 50"
  "float64_add 0 tenth = tenth"
  "float64_add tenth fifth = 5404319552844596 / 18014398509481984"
  by (simp_all add: float64_add_def float64_sub_def float64_round_def binade_numeral pow2_def
      round_half_even_def Let_def tenth_def fifth_def)

lemma float64_sub_by_negation: "float64_sub x y = float64_add x (- y)"
  by (simp add: float64_sub_def float64_add_def)

lemma B0_fields:
  "float_add B0 = float64_add"
  "float_sub B0 = float64_sub"
  "py_strip B0 '' DELETE '' = ''DELETE''"
  "py_int B0 ''0'' = Some 0"
  by (simp_all add: B0_def)

lemma B0_sub_by_negation: "sub_by_negation B0"
  by (simp add: sub_by_negation_def B0_fields float64_sub_by_negation)

section \<open>Facts about the concrete store\<close>

lemma db0_tables:
  "users db0 = [\<lparr>uid = 1, telegram_id = 1001, wallet_balance = 50\<rparr>]"
  "profiles db0 = [basic_v1, basic_v2, premium]"
  "subscriptions db0 = [sub1]"
  "transactions db0 = [\<lparr>txn_user_id = 1, amount = 50, txn_type = ''deposit'',
                        description = ''Receipt #1''\<rparr>]"
  by (simp_all add: db0_def)

lemma db0_servers:
  "servers db0 = [\<lparr>srv_id = 1, srv_host = ''10.0.0.1'', srv_username = ''admin'',
                   srv_password = ''pw'', srv_port = 8728\<rparr>]"
  by (simp add: db0_def)

lemma db0_receipts:
  "payment_receipts db0 =
     [\<lparr>rid = 1, rcp_user_id = 1, rcp_amount = 50, status = ''approved'',
       admin_note = Some ''Approved by 7''\<rparr>,
      \<lparr>rid = 2, rcp_user_id = 1, rcp_amount = 25, status = ''pending'', admin_note = None\<rparr>]"
  by (simp add: db0_def)

lemma db0_lookups:
  "get_user 1 db0 = Some \<lparr>uid = 1, telegram_id = 1001, wallet_balance = 50\<rparr>"
  "user_by_telegram_id 1001 db0 = Some \<lparr>uid = 1, telegram_id = 1001, wallet_balance = 50\<rparr>"
  "get_profile 1 db0 = Some basic_v1"
  "get_profile 3 db0 = Some premium"
  "get_subscription 1 db0 = Some sub1"
  by (simp_all add: get_user_def user_by_telegram_id_def get_profile_def get_subscription_def
      db0_tables basic_v1_def basic_v2_def premium_def sub1_def)

lemma plan_fields:
  "price basic_v1 = 30" "validity_days basic_v1 = 30" "prof_name basic_v1 = ''Basic''"
  "pid basic_v1 = 1" "data_limit_gb basic_v1 = 10" "prof_server_id basic_v1 = 1"
  "price basic_v2 = 40" "validity_days basic_v2 = 60" "pid basic_v2 = 2"
  "price premium = 80"
  by (simp_all add: basic_v1_def basic_v2_def premium_def)

lemma sub1_fields:
  "sid sub1 = 1" "sub_user_id sub1 = 1" "sub_profile_id sub1 = 1" "sub_server_id sub1 = 1"
  "expiry_date sub1 = 1000" "mikrotik_username sub1 = ''u00000001''"
  by (simp_all add: sub1_def)

lemma deduct_db0:
  "deduct B0 True 1 30 ds db0 =
     (True, add_txn \<lparr>txn_user_id = 1, amount = - 30, txn_type = ''purchase'', description = ds\<rparr>
              (set_wallet_balance 1 20 db0))"
  by (simp add: deduct_def db0_lookups B0_fields float64_values)

lemma str_int_7: "str_int 7 = ''7''"
  by (simp add: str_int_def str_nat.simps digit_char_def)

lemma latest_profile_db0: "latest_profile basic_v1 db0 = Some basic_v2"
  by (simp add: latest_profile_def db0_tables basic_v1_def basic_v2_def premium_def
      ascii_lower_def)

section \<open>Deposits carry no sign check\<close>



section \<open>The balance and the ledger\<close>

text \<open>
  C1, as amended. For every account \<open>i\<close>: when the cached balance agrees with the
  running sum of the account's Transaction amounts (the amounts added one after the
  other in the order of the rows, with the float addition that built the balance), it
  still agrees after any sequence of operations: deposits, deductions, receipt
  decisions, manual balance edits, first contacts, purchases, renewals and deletions,
  whatever their arguments, whether they succeed or fail, and whatever the router and
  the database answer. It is assumed that \<open>users.id\<close> is a key and that a float
  difference is the sum with the negation. (A manual balance edit never gets as far as
  writing.)
\<close>

theorem ledger_invariant:
  assumes "sub_by_negation B" and "distinct (map uid (users d))"
    and "balance_matches_ledger B i d"
  shows "balance_matches_ledger B i (fst (run_operations B cfg ops (d, r)))"
  using run_operations_keeps [of B "(d, r)" i cfg ops] assms by simp

theorem ledger_invariant_witness:
  "sub_by_negation B0 \<and> distinct (map uid (users db0)) \<and> balance_matches_ledger B0 1 db0
   \<and> balance_matches_ledger B0 1
        (fst (run_operations B0 cfg0
           [Deposit True 1 tenth ''x'', Deposit True 1 fifth ''y'', Deduct True 1 100 ''z'',
            ApproveReceipt True False 2 7, EditBalance ''20'' ''u00000001'',
            Purchase True True True 5 6 ''pw'' 1 1001]
           (db0, unreachable)))"
proof -
  have h1: "distinct (map uid (users db0))"
    by (simp add: db0_tables)
  have h2: "balance_matches_ledger B0 1 db0"
    by (simp add: balance_matches_ledger_def db0_lookups running_sum_def ledger_def db0_tables
        B0_fields float64_values)
  show ?thesis
    by (intro conjI B0_sub_by_negation h1 h2 ledger_invariant)
qed

text \<open>
  Read in exact arithmetic the agreement is lost: an account without entries is
  credited the doubles nearest to 0.1 and to 0.2. The stored balance is the double
  \<open>0.30000000000000004\<close>, the sum of the two rows is not.
\<close>

theorem exact_sum_counterexample:
  "balance_equals_sum 1 db_new
   \<and> \<not> balance_equals_sum 1
         (fst (run_operations B0 cfg0
            [Deposit True 1 tenth ''a'', Deposit True 1 fifth ''b''] (db_new, unreachable)))"
proof -
  have u: "get_user 1 db_new = Some \<lparr>uid = 1, telegram_id = 1001, wallet_balance = 0\<rparr>"
    by (simp add: get_user_def db_new_def)
  have l0: "ledger 1 db_new = []"
    by (simp add: ledger_def db_new_def)
  have "balance_equals_sum 1 db_new"
    by (simp add: balance_equals_sum_def u l0)
  moreover have "\<not> balance_equals_sum 1
         (fst (run_operations B0 cfg0
            [Deposit True 1 tenth ''a'', Deposit True 1 fifth ''b''] (db_new, unreachable)))"
    by (simp add: balance_equals_sum_def deposit_def u get_user_set_wallet_balance
        B0_fields float64_values ledger_add_txn l0)
       (simp add: tenth_def fifth_def)
  ultimately show ?thesis by simp
qed

section \<open>A purchase without funds changes nothing\<close>

text \<open>
  C2. A purchase whose plan costs more than the buyer's balance: the debit fails, and
  the handler ends with the store and the router exactly as they were. No Transaction
  is written, the balance is unchanged, no Subscription is created and no call to the
  router is made, whatever the environment answers.
\<close>

theorem purchase_insufficient_funds:
  assumes "distinct (map uid (users d))"
    and "get_profile profile_id d = Some prof"
    and "user_by_telegram_id user_id d = Some u"
    and "wallet_balance u < price prof"
  shows "deduct B deduct_ok (uid u) (price prof) (''Purchase: '' @ prof_name prof) d = (False, d)
       \<and> process_purchase_flow B cfg deduct_ok start_ok commit_ok now1 now2 pw profile_id user_id
             (d, r) = (Inr PaymentFailed, d, r)"
proof -
  have u: "get_user (uid u) d = Some u"
    using assms(1,3) by (intro get_user_distinct user_by_telegram_id_in)
  have failed: "deduct B deduct_ok (uid u) (price prof) ds d = (False, d)" for ds
    using u assms(4) by (simp add: deduct_def)
  have "start start_ok user_id d = (Inr (), d)"
    using assms(3) by (simp add: start_def)
  with failed assms(2,3) show ?thesis
    by (simp add: process_purchase_flow_def)
qed

theorem purchase_insufficient_funds_witness:
  "distinct (map uid (users db0))
   \<and> get_profile 3 db0 = Some premium
   \<and> user_by_telegram_id 1001 db0 = Some \<lparr>uid = 1, telegram_id = 1001, wallet_balance = 50\<rparr>
   \<and> (50::real) < price premium
   \<and> process_purchase_flow B0 cfg0 True True True 5 6 ''pw'' 3 1001
        (db0, \<lparr>replies = [Returns []], calls = []\<rparr>)
      = (Inr PaymentFailed, db0, \<lparr>replies = [Returns []], calls = []\<rparr>)"
proof -
  have h1: "distinct (map uid (users db0))"
    by (simp add: db0_def)
  have h2: "get_profile 3 db0 = Some premium"
    by (simp add: get_profile_def db0_def basic_v1_def basic_v2_def premium_def)
  have h3: "user_by_telegram_id 1001 db0 = Some \<lparr>uid = 1, telegram_id = 1001, wallet_balance = 50\<rparr>"
    by (simp add: user_by_telegram_id_def db0_def)
  have h4: "wallet_balance \<lparr>uid = 1, telegram_id = 1001, wallet_balance = 50\<rparr> < price premium"
    by (simp add: premium_def)
  show ?thesis
    using h1 h2 h3 h4 purchase_insufficient_funds [OF h1 h2 h3 h4] by simp
qed

section \<open>The expiry after a renewal\<close>

lemma find_sid_map:
  "find (\<lambda>s. sid s = i) (map (\<lambda>s. if sid s = i then s\<lparr>expiry_date := t\<rparr> else s) xs) =
     map_option (\<lambda>s. s\<lparr>expiry_date := t\<rparr>) (find (\<lambda>s. sid s = i) xs)"
  by (induction xs) auto

lemma subscriptions_deduct:
  "subscriptions (snd (deduct B ok j a ds d)) = subscriptions d"
  by (simp add: deduct_def add_txn_def set_wallet_balance_def split: option.splits)

text \<open>
  C4. A renewal that goes through stores as new expiry: the clock plus the plan's
  validity days when the old expiry is earlier than the clock, and the old expiry plus
  the validity days otherwise. (The clock is read once for the comparison, \<open>now1\<close>,
  and once more for the sum, \<open>now2\<close>.)
\<close>

theorem renewal_expiry:
  assumes "confirm_renewal B cfg deduct_ok commit_ok now1 now2 sub_id user_id (d, r) =
             (Inr RenewalSuccessful, d', r')"
    and "get_subscription sub_id d = Some sub"
    and "get_profile (sub_profile_id sub) d = Some prof"
  shows "get_subscription sub_id d' =
           Some (sub\<lparr>expiry_date :=
                   (if expiry_date sub < now1 then now2 + timedelta_days (validity_days prof)
                    else expiry_date sub + timedelta_days (validity_days prof))\<rparr>)"
proof -
  let ?t = "if expiry_date sub < now1 then now2 + timedelta_days (validity_days prof)
            else expiry_date sub + timedelta_days (validity_days prof)"
  from assms(1) obtain u where u: "user_by_telegram_id user_id d = Some u"
    by (cases "user_by_telegram_id user_id d") (simp_all add: confirm_renewal_def)
  obtain b d1 where
    ded: "deduct B deduct_ok (uid u) (price prof) (''Renewal: '' @ prof_name prof) d = (b, d1)"
    by (meson surj_pair)
  have d1: "subscriptions d1 = subscriptions d"
    using subscriptions_deduct [of B deduct_ok "uid u" "price prof" "''Renewal: '' @ prof_name prof" d]
    unfolding ded by simp
  from assms u ded have "d' = set_expiry_date sub_id ?t d1"
    by (cases b; cases commit_ok) (simp_all add: confirm_renewal_def Let_def)
  with assms(2) d1 show ?thesis
    by (simp add: get_subscription_def set_expiry_date_def find_sid_map)
qed

theorem renewal_expiry_witness:
  "confirm_renewal B0 cfg0 True True 2000 2001 1 1001 (db0, unreachable) =
     (Inr RenewalSuccessful,
      fst (snd (confirm_renewal B0 cfg0 True True 2000 2001 1 1001 (db0, unreachable))),
      snd (snd (confirm_renewal B0 cfg0 True True 2000 2001 1 1001 (db0, unreachable))))
   \<and> get_subscription 1 db0 = Some sub1
   \<and> get_profile (sub_profile_id sub1) db0 = Some basic_v1
   \<and> expiry_date sub1 = 1000
   \<and> get_subscription 1
         (fst (snd (confirm_renewal B0 cfg0 True True 2000 2001 1 1001 (db0, unreachable)))) =
       Some (sub1\<lparr>expiry_date := 2001 + 30 * 86400000000\<rparr>)"
proof -
  have h2: "get_subscription 1 db0 = Some sub1"
    by (rule db0_lookups)
  have h3: "get_profile (sub_profile_id sub1) db0 = Some basic_v1"
    by (simp add: db0_lookups sub1_fields)
  have "fst (confirm_renewal B0 cfg0 True True 2000 2001 1 1001 (db0, unreachable)) =
          Inr RenewalSuccessful"
    by (simp add: confirm_renewal_def db0_lookups sub1_fields plan_fields deduct_db0 Let_def)
  then have h1: "confirm_renewal B0 cfg0 True True 2000 2001 1 1001 (db0, unreachable) =
     (Inr RenewalSuccessful,
      fst (snd (confirm_renewal B0 cfg0 True True 2000 2001 1 1001 (db0, unreachable))),
      snd (snd (confirm_renewal B0 cfg0 True True 2000 2001 1 1001 (db0, unreachable))))"
    by (metis prod.collapse)
  show ?thesis
    using h1 h2 h3 renewal_expiry [OF h1 h2 h3]
    by (simp add: timedelta_days_def sub1_fields plan_fields)
qed

section \<open>An unreachable router\<close>

lemma unreachable_connect:
  "connect (m, unreachable) = (None, m, \<lparr>replies = [], calls = [Connect (host m) (port m)]\<rparr>)"
  by (simp add: connect_def perform_def unreachable_def)

lemma unreachable_get_resource:
  "\<not> api m \<Longrightarrow>
   get_resource path (m, unreachable) =
     (None, m, \<lparr>replies = [], calls = [Connect (host m) (port m)]\<rparr>)"
  by (simp add: get_resource_def bind_rad_def unreachable_connect)

lemma unreachable_create_user:
  "\<not> api m \<Longrightarrow>
   create_user uname pw pn (m, unreachable) =
     (False, m, \<lparr>replies = [], calls = [Connect (host m) (port m)]\<rparr>)"
  by (simp add: create_user_def try_rad_def bind_rad_def unreachable_get_resource)

lemma unreachable_get_user_info:
  "\<not> api m \<Longrightarrow>
   get_user_info B uname (m, unreachable) =
     (None, m, \<lparr>replies = [], calls = [Connect (host m) (port m)]\<rparr>)"
  by (simp add: get_user_info_def try_rad_def bind_rad_def unreachable_get_resource)

section \<open>Where the code leaves the specification\<close>

text \<open>
  C3 (the code departs from it). The buyer has 50, the plan \<open>Basic\<close> costs 30, and
  the router cannot be reached, so \<open>create_user\<close> fails after the debit. The
  handler reports a technical error and creates no Subscription, but it credits nothing
  back: the balance stays at 20 and the ledger ends with the purchase entry of -30, with
  no refund entry after it.
\<close>

theorem purchase_debit_not_refunded:
  "process_purchase_flow B0 cfg0 True True True 1700000000123456 1700000000999999 ''pw123456''
     1 1001 (db0, unreachable) =
   (Inr TechnicalError,
    db0\<lparr>users := [\<lparr>uid = 1, telegram_id = 1001, wallet_balance = 20\<rparr>],
        transactions :=
          [\<lparr>txn_user_id = 1, amount = 50, txn_type = ''deposit'', description = ''Receipt #1''\<rparr>,
           \<lparr>txn_user_id = 1, amount = - 30, txn_type = ''purchase'',
            description = ''Purchase: Basic''\<rparr>]\<rparr>,
    \<lparr>replies = [], calls = [Connect ''192.168.88.1'' 8728]\<rparr>)"
  by (simp add: process_purchase_flow_def db0_lookups plan_fields deduct_db0 Let_def
      unreachable_create_user MikroTikManager_def or_default_def cfg0_def
      add_txn_def set_wallet_balance_def db0_tables)

text \<open>
  C5 (the code departs from it). A renewal of \<open>sub1\<close> while the router cannot be
  reached: \<open>get_user_info\<close> returns \<open>None\<close>, and the handler goes on to
  commit. It reports success, keeps the debit of 30 (balance 20, no refund entry) and
  stores the extended expiry, which the router never received.
\<close>

theorem renewal_debit_kept_expiry_stored:
  "confirm_renewal B0 cfg0 True True 500 501 1 1001 (db0, unreachable) =
   (Inr RenewalSuccessful,
    db0\<lparr>users := [\<lparr>uid = 1, telegram_id = 1001, wallet_balance = 20\<rparr>],
        transactions :=
          [\<lparr>txn_user_id = 1, amount = 50, txn_type = ''deposit'', description = ''Receipt #1''\<rparr>,
           \<lparr>txn_user_id = 1, amount = - 30, txn_type = ''purchase'',
            description = ''Renewal: Basic''\<rparr>],
        subscriptions := [sub1\<lparr>expiry_date := 1000 + 30 * 86400000000\<rparr>]\<rparr>,
    \<lparr>replies = [], calls = [Connect ''10.0.0.1'' 8728]\<rparr>)"
  by (simp add: confirm_renewal_def db0_lookups plan_fields sub1_fields deduct_db0 Let_def
      renew_on_router_def unreachable_get_user_info MikroTikManager_def or_default_def
      get_server_def db0_servers db0_tables add_txn_def set_wallet_balance_def
      set_expiry_date_def timedelta_days_def)

text \<open>
  C6 (the code departs from it). The subscription was bought under \<open>Basic\<close>,
  version 1, and \<open>Basic_v2\<close> is its newer version on the same server. The prompt of
  \<open>renew_subscription\<close> resolves the newer version and offers 60 days for 40. The
  confirmation, \<open>confirm_renewal\<close>, reads the plan of the subscription again and
  does not look for a newer one: it debits 30, extends by 30 days and grants the 10 GB
  (10737418240 bytes) of version 1.
\<close>

theorem renewal_ignores_newer_version:
  "renew_subscription B0 500 501 1 1001 db0 = ConfirmRenewal basic_v2 (1000 + 60 * 86400000000)
   \<and> price basic_v2 = 40
   \<and> confirm_renewal B0 cfg0 True True 500 501 1 1001 (db0, router1) =
       (Inr RenewalSuccessful,
        db0\<lparr>users := [\<lparr>uid = 1, telegram_id = 1001, wallet_balance = 20\<rparr>],
            transactions :=
              [\<lparr>txn_user_id = 1, amount = 50, txn_type = ''deposit'',
                description = ''Receipt #1''\<rparr>,
               \<lparr>txn_user_id = 1, amount = - 30, txn_type = ''purchase'',
                description = ''Renewal: Basic''\<rparr>],
            subscriptions := [sub1\<lparr>expiry_date := 1000 + 30 * 86400000000\<rparr>]\<rparr>,
        \<lparr>replies = [],
         calls = [Connect ''10.0.0.1'' 8728,
                  Get ''/user-manager/user'' [(''name'', Str ''u00000001'')],
                  Get ''/user-manager/session''
                    [(''user'', Str ''u00000001''), (''active'', Str ''true'')],
                  Get ''/user-manager/limitation'' [(''name'', Str ''u00000001'')],
                  Set ''/user-manager/limitation''
                    [(''id'', Str ''*5''), (''total-limit'', Str ''10737418240'')]]\<rparr>)"
proof -
  have preview: "renew_subscription B0 500 501 1 1001 db0 =
                   ConfirmRenewal basic_v2 (1000 + 60 * 86400000000)"
    by (simp add: renew_subscription_def db0_lookups sub1_fields plan_fields latest_profile_db0
        Let_def timedelta_days_def)
  have limit: "str_int 10737418240 = ''10737418240''"
    by (simp add: str_int_def str_nat.simps digit_char_def)
  have on_router:
    "renew_on_router B0 cfg0
       \<lparr>srv_id = 1, srv_host = ''10.0.0.1'', srv_username = ''admin'', srv_password = ''pw'',
        srv_port = 8728\<rparr> ''u00000001'' basic_v1 False router1 =
     \<lparr>replies = [],
      calls = [Connect ''10.0.0.1'' 8728,
               Get ''/user-manager/user'' [(''name'', Str ''u00000001'')],
               Get ''/user-manager/session''
                 [(''user'', Str ''u00000001''), (''active'', Str ''true'')],
               Get ''/user-manager/limitation'' [(''name'', Str ''u00000001'')],
               Set ''/user-manager/limitation''
                 [(''id'', Str ''*5''), (''total-limit'', Str ''10737418240'')]]\<rparr>"
    by (simp add: renew_on_router_def get_user_info_def add_data_to_user_def try_rad_def
        bind_rad_def return_rad_def raise_rad_def get_resource_def connect_def perform_def
        int_field_def item_def B0_def MikroTikManager_def or_default_def router1_def
        plan_fields limit Let_def)
  have confirm: "confirm_renewal B0 cfg0 True True 500 501 1 1001 (db0, router1) =
       (Inr RenewalSuccessful,
        db0\<lparr>users := [\<lparr>uid = 1, telegram_id = 1001, wallet_balance = 20\<rparr>],
            transactions :=
              [\<lparr>txn_user_id = 1, amount = 50, txn_type = ''deposit'',
                description = ''Receipt #1''\<rparr>,
               \<lparr>txn_user_id = 1, amount = - 30, txn_type = ''purchase'',
                description = ''Renewal: Basic''\<rparr>],
            subscriptions := [sub1\<lparr>expiry_date := 1000 + 30 * 86400000000\<rparr>]\<rparr>,
        \<lparr>replies = [],
         calls = [Connect ''10.0.0.1'' 8728,
                  Get ''/user-manager/user'' [(''name'', Str ''u00000001'')],
                  Get ''/user-manager/session''
                    [(''user'', Str ''u00000001''), (''active'', Str ''true'')],
                  Get ''/user-manager/limitation'' [(''name'', Str ''u00000001'')],
                  Set ''/user-manager/limitation''
                    [(''id'', Str ''*5''), (''total-limit'', Str ''10737418240'')]]\<rparr>)"
    by (simp add: confirm_renewal_def db0_lookups plan_fields sub1_fields deduct_db0 Let_def
        get_server_def db0_servers db0_tables add_txn_def set_wallet_balance_def
        set_expiry_date_def timedelta_days_def on_router)
  show ?thesis
    by (intro conjI preview confirm plan_fields)
qed

text \<open>
  C7 (the code departs from it). Receipt 1 is already approved and its 50 are in the
  ledger. \<open>reject_receipt\<close> does not look at the status: it returns \<open>True\<close>,
  turns the receipt to \<open>rejected\<close> and overwrites the note; the ledger is not
  touched. (\<open>approve_receipt\<close> does refuse a receipt that is not pending.)
\<close>

theorem rejection_of_approved_receipt:
  "reject_receipt True 1 7 [] db0 =
     (True,
      db0\<lparr>payment_receipts :=
            [\<lparr>rid = 1, rcp_user_id = 1, rcp_amount = 50, status = ''rejected'',
              admin_note = Some ''Rejected by 7: ''\<rparr>,
             \<lparr>rid = 2, rcp_user_id = 1, rcp_amount = 25, status = ''pending'',
              admin_note = None\<rparr>]\<rparr>)"
  by (simp add: reject_receipt_def get_receipt_def update_receipt_def db0_receipts str_int_7)

text \<open>
  C8 (the code departs from it). Receipt 2 is pending. \<open>approve_receipt\<close> commits
  the status \<open>approved\<close> first and calls \<open>deposit\<close> afterwards in a session of
  its own; when that session fails, \<open>approve_receipt\<close> returns \<open>False\<close> and
  the receipt stays approved with no Transaction and no change of balance.
\<close>

theorem approval_without_credit:
  "approve_receipt B0 True False 2 7 db0 =
     (False,
      db0\<lparr>payment_receipts :=
            [\<lparr>rid = 1, rcp_user_id = 1, rcp_amount = 50, status = ''approved'',
              admin_note = Some ''Approved by 7''\<rparr>,
             \<lparr>rid = 2, rcp_user_id = 1, rcp_amount = 25, status = ''approved'',
              admin_note = Some ''Approved by 7''\<rparr>]\<rparr>)"
  by (simp add: approve_receipt_def get_receipt_def update_receipt_def db0_receipts str_int_7
      deposit_def)

section \<open>The conversation with the router\<close>

lemma continues_refl [simp]: "continues r r"
  by (simp add: continues_def)

lemma continues_trans: "continues r r1 \<Longrightarrow> continues r1 r2 \<Longrightarrow> continues r r2"
  unfolding continues_def
proof (elim exE conjE)
  fix c1 c2
  assume "calls r1 = calls r @ c1" "replies r1 = drop (length c1) (replies r)"
    "calls r2 = calls r1 @ c2" "replies r2 = drop (length c2) (replies r1)"
  then have "calls r2 = calls r @ (c1 @ c2) \<and> replies r2 = drop (length (c1 @ c2)) (replies r)"
    by (simp add: add.commute)
  then show "\<exists>cs. calls r2 = calls r @ cs \<and> replies r2 = drop (length cs) (replies r)"
    by blast
qed

lemma zip_take_length: "zip xs (take (length xs) ys) = zip xs ys"
proof (induction xs arbitrary: ys)
  case Nil
  then show ?case by simp
next
  case (Cons x xs)
  then show ?case by (cases ys) simp_all
qed

lemma exchanges_append:
  assumes "continues r r1" and "continues r1 r2"
  shows "exchanges r r2 = exchanges r r1 @ exchanges r1 r2"
proof -
  from assms obtain c1 c2 where
    1: "calls r1 = calls r @ c1" "replies r1 = drop (length c1) (replies r)" and
    2: "calls r2 = calls r1 @ c2"
    by (auto simp: continues_def)
  have "zip (c1 @ c2) (replies r) =
          zip c1 (take (length c1) (replies r)) @ zip c2 (drop (length c1) (replies r))"
    by (rule zip_append1)
  also have "zip c1 (take (length c1) (replies r)) = zip c1 (replies r)"
    by (rule zip_take_length)
  finally show ?thesis
    by (simp add: exchanges_def 1 2)
qed


lemma exchanges_within:
  assumes "continues a b" and "continues b c" and "continues c d"
  shows "set (exchanges b c) \<subseteq> set (exchanges a d)"
proof -
  have "exchanges a d = exchanges a b @ exchanges b d"
    using assms by (intro exchanges_append) (auto intro: continues_trans)
  also have "exchanges b d = exchanges b c @ exchanges c d"
    using assms by (intro exchanges_append)
  finally show ?thesis by auto
qed

lemma perform_continues: "continues (snd s) (snd (snd (perform c s)))"
  by (cases s) (auto simp: perform_def continues_def split: list.splits reply.splits)

lemma perform_exchange:
  "perform c s = (Some rows, s') \<Longrightarrow> exchanges (snd s) (snd s') = [(c, Returns rows)]"
  by (cases s) (auto simp: perform_def exchanges_def split: list.splits reply.splits)

lemma steadyD:
  assumes "steady f" and "f s = (x, s')"
  shows "continues (snd s) (snd s')"
proof -
  from assms(1) have "continues (snd s) (snd (snd (f s)))"
    unfolding steady_def by (rule spec)
  with assms(2) show ?thesis by simp
qed

lemma steady_perform [intro!]: "steady (perform c)"
  by (simp add: steady_def perform_continues)

lemma steady_return [intro!]: "steady (return_rad x)"
  by (simp add: steady_def return_rad_def)

lemma steady_raise [intro!]: "steady raise_rad"
  by (simp add: steady_def raise_rad_def)

lemma steady_bind [intro!]:
  assumes "steady f" and "\<And>x. steady (g x)"
  shows "steady (bind_rad f g)"
  unfolding steady_def
proof
  fix s
  show "continues (snd s) (snd (snd (bind_rad f g s)))"
  proof -
    obtain x s' where run: "f s = (x, s')"
      by (meson surj_pair)
    have 1: "continues (snd s) (snd s')"
      using assms(1) run by (rule steadyD)
    show ?thesis
    proof (cases x)
      case None
      with run 1 show ?thesis by (simp add: bind_rad_def)
    next
      case (Some y)
      have "continues (snd s') (snd (snd (g y s')))"
        using assms(2) [of y] by (rule steadyD) (rule prod.collapse [symmetric])
      with 1 run Some show ?thesis
        by (auto simp: bind_rad_def intro: continues_trans)
    qed
  qed
qed

lemma steady_try [intro!]:
  assumes "steady f"
  shows "steady (try_rad dflt f)"
  unfolding steady_def
proof
  fix s
  obtain x s' where run: "f s = (x, s')"
    by (meson surj_pair)
  have "continues (snd s) (snd s')"
    using assms run by (rule steadyD)
  with run show "continues (snd s) (snd (snd (try_rad dflt f s)))"
    by (cases x) (simp_all add: try_rad_def)
qed

lemma steady_connect [intro!]: "steady connect"
  unfolding steady_def
proof
  fix s
  show "continues (snd s) (snd (snd (connect s)))"
    using perform_continues [of s "Connect (host (fst s)) (port (fst s))"]
    by (auto simp: connect_def split: prod.splits option.splits)
qed

lemma steady_get_resource [intro!]: "steady (get_resource path)"
proof -
  have "steady (bind_rad connect (\<lambda>_. return_rad path))" by blast
  then show ?thesis
    by (auto simp: steady_def get_resource_def return_rad_def)
qed

lemma steady_item [intro!]: "steady (item rw k)"
  by (auto simp: item_def split: option.splits)

lemma steady_if [intro!]: "steady f \<Longrightarrow> steady g \<Longrightarrow> steady (if b then f else g)"
  by simp

lemma remove_each_continues: "continues (snd s) (snd (snd (remove_each path xs s)))"
proof (induction xs arbitrary: s)
  case Nil
  then show ?case by simp
next
  case (Cons x xs)
  show ?case
  proof (cases "map_of x ''id''")
    case None
    then show ?thesis by simp
  next
    case (Some i)
    obtain res s' where p: "perform (Remove path [(''id'', Str i)]) s = (res, s')"
      by (meson surj_pair)
    have 1: "continues (snd s) (snd s')"
      using perform_continues [of s "Remove path [(''id'', Str i)]"] p by simp
    show ?thesis
    proof (cases res)
      case None
      with Some p 1 show ?thesis by simp
    next
      case (Some rows)
      with \<open>map_of x ''id'' = Some i\<close> p 1 Cons.IH [of s'] show ?thesis
        by (auto intro: continues_trans)
    qed
  qed
qed

lemma steady_remove_each [intro!]: "steady (remove_each path xs)"
  by (simp add: steady_def remove_each_continues)

lemma steady_disconnect_user_session [intro!]: "steady (disconnect_user_session uname)"
  unfolding disconnect_user_session_def by blast

lemma bind_rad_Some:
  assumes "bind_rad f g s = (Some y, s'')"
  obtains x s' where "f s = (Some x, s')" and "g x s' = (Some y, s'')"
  using assms by (auto simp: bind_rad_def split: prod.splits option.splits)

lemma try_rad_True: "try_rad False f s = (True, s') \<Longrightarrow> f s = (Some True, s')"
  by (auto simp: try_rad_def split: prod.splits option.splits)

lemma get_resource_Some: "get_resource path s = (Some p, s') \<Longrightarrow> p = path"
  by (auto simp: get_resource_def bind_rad_def return_rad_def
      split: if_splits prod.splits option.splits)

lemma item_Some: "item rw k s = (Some v, s') \<Longrightarrow> map_of rw k = Some v \<and> s' = s"
  by (auto simp: item_def return_rad_def raise_rad_def split: option.splits)

text \<open>
  What a success of \<open>delete_user\<close> stands for: the router answered the lookup of
  the account, and when it listed the account it also answered the removal of it.
\<close>

lemma delete_user_success:
  assumes "delete_user uname s0 = (True, sf)"
  shows "\<exists>us. (Get ''/user-manager/user'' [(''name'', Str uname)], Returns us)
                 \<in> set (exchanges (snd s0) (snd sf))
            \<and> (us \<noteq> [] \<longrightarrow>
                 (\<exists>i rows. map_of (hd us) ''id'' = Some i
                    \<and> (Remove ''/user-manager/user'' [(''id'', Str i)], Returns rows)
                        \<in> set (exchanges (snd s0) (snd sf))))"
proof -
  define s1 where "s1 = snd (disconnect_user_session uname s0)"
  have c01: "continues (snd s0) (snd s1)"
    unfolding s1_def using steady_disconnect_user_session
    by (rule steadyD) (rule prod.collapse [symmetric])
  from assms have "bind_rad (\<lambda>s. (Some (), snd (disconnect_user_session uname s)))
      (\<lambda>_. bind_rad (get_resource ''/user-manager/user'') (\<lambda>user_api.
        bind_rad (perform (Get user_api [(''name'', Str uname)])) (\<lambda>us.
        bind_rad (if us \<noteq> []
                  then bind_rad (item (hd us) ''id'') (\<lambda>i.
                       bind_rad (perform (Remove user_api [(''id'', Str i)])) (\<lambda>_.
                       return_rad ()))
                  else return_rad ()) (\<lambda>_.
        bind_rad (get_resource ''/user-manager/user-profile'') (\<lambda>up_api.
        bind_rad (perform (Get up_api [(''user'', Str uname)])) (\<lambda>ups.
        bind_rad (remove_each up_api ups) (\<lambda>_.
        return_rad True))))))) s0 = (Some True, sf)"
    unfolding delete_user_def by (rule try_rad_True)
  then obtain api s2 us s3 s4 up_api s5 ups s6 s7 where
    g1: "get_resource ''/user-manager/user'' s1 = (Some api, s2)" and
    p0: "perform (Get api [(''name'', Str uname)]) s2 = (Some us, s3)" and
    x0: "(if us \<noteq> []
          then bind_rad (item (hd us) ''id'') (\<lambda>i.
               bind_rad (perform (Remove api [(''id'', Str i)])) (\<lambda>_.
               return_rad ()))
          else return_rad ()) s3 = (Some (), s4)" and
    g2: "get_resource ''/user-manager/user-profile'' s4 = (Some up_api, s5)" and
    p2: "perform (Get up_api [(''user'', Str uname)]) s5 = (Some ups, s6)" and
    re: "remove_each up_api ups s6 = (Some (), s7)" and
    rt: "return_rad True s7 = (Some True, sf)"
    unfolding s1_def by (elim bind_rad_Some) auto
  have api: "api = ''/user-manager/user''"
    using g1 by (rule get_resource_Some)
  note p = p0 [unfolded api] and x = x0 [unfolded api]
  have c12: "continues (snd s1) (snd s2)"
    using steady_get_resource g1 by (rule steadyD)
  have c23: "continues (snd s2) (snd s3)"
    using steady_perform p by (rule steadyD)
  have "steady (if us \<noteq> []
          then bind_rad (item (hd us) ''id'') (\<lambda>i.
               bind_rad (perform (Remove ''/user-manager/user'' [(''id'', Str i)])) (\<lambda>_.
               return_rad ()))
          else return_rad ())"
    by blast
  then have c34: "continues (snd s3) (snd s4)"
    using x by (rule steadyD)
  have c45: "continues (snd s4) (snd s5)"
    using steady_get_resource g2 by (rule steadyD)
  have c56: "continues (snd s5) (snd s6)"
    using steady_perform p2 by (rule steadyD)
  have c67: "continues (snd s6) (snd s7)"
    using steady_remove_each re by (rule steadyD)
  have "s7 = sf"
    using rt by (simp add: return_rad_def)
  with c45 c56 c67 have c4f: "continues (snd s4) (snd sf)"
    by (blast intro: continues_trans)
  have c02: "continues (snd s0) (snd s2)"
    using c01 c12 by (rule continues_trans)
  have c03: "continues (snd s0) (snd s3)"
    using c02 c23 by (rule continues_trans)
  have c3f: "continues (snd s3) (snd sf)"
    using c34 c4f by (rule continues_trans)
  have lookup: "(Get ''/user-manager/user'' [(''name'', Str uname)], Returns us)
                  \<in> set (exchanges (snd s0) (snd sf))"
    using exchanges_within [OF c02 c23 c3f] perform_exchange [OF p] by auto
  have removal: "\<exists>i rows. map_of (hd us) ''id'' = Some i
                    \<and> (Remove ''/user-manager/user'' [(''id'', Str i)], Returns rows)
                        \<in> set (exchanges (snd s0) (snd sf))" if "us \<noteq> []"
  proof -
    from x that have "bind_rad (item (hd us) ''id'') (\<lambda>i.
              bind_rad (perform (Remove ''/user-manager/user'' [(''id'', Str i)])) (\<lambda>_.
              return_rad ())) s3 = (Some (), s4)"
      by simp
    then obtain i s3' rows s4' where
      it: "item (hd us) ''id'' s3 = (Some i, s3')" and
      rm0: "perform (Remove ''/user-manager/user'' [(''id'', Str i)]) s3' = (Some rows, s4')" and
      rt': "return_rad () s4' = (Some (), s4)"
      by (elim bind_rad_Some) auto
    from it have i: "map_of (hd us) ''id'' = Some i" and "s3' = s3"
      by (auto dest: item_Some)
    moreover from rt' have "s4' = s4"
      by (simp add: return_rad_def)
    ultimately have
      rm: "perform (Remove ''/user-manager/user'' [(''id'', Str i)]) s3 = (Some rows, s4)"
      using rm0 by simp
    then have "exchanges (snd s3) (snd s4) =
                 [(Remove ''/user-manager/user'' [(''id'', Str i)], Returns rows)]"
      by (rule perform_exchange)
    with exchanges_within [OF c03 c34 c4f] i show ?thesis
      by auto
  qed
  from lookup removal show ?thesis
    by blast
qed

section \<open>Deletion: the router first\<close>

text \<open>
  C9. Deleting a subscription: once the confirmation reads \<open>DELETE\<close>, the handler
  first runs \<open>delete_user\<close> on the router to its end; no call to the router follows
  it, and only its result decides about the local row. When \<open>delete_user\<close> reports
  failure the store is left exactly as it was and the handler reports the failure; the
  store changes only in a run where \<open>delete_user\<close> reported success. A reported
  success means that the router answered the lookup of the account and, when it listed
  the account, also answered the removal of it, all before the store was touched. After
  a success the commit deletes the subscription row of that user name, and the handler
  reports the deletion.
\<close>

theorem delete_remote_before_local:
  assumes "process_delete_confirm B cfg commit_ok msg uname (d, r) = (res, d', r')"
    and "py_strip B msg = ''DELETE''"
  shows "r' = snd (snd (delete_user uname (get_mikrotik_manager cfg, r)))
       \<and> (\<not> fst (delete_user uname (get_mikrotik_manager cfg, r)) \<longrightarrow>
            d' = d \<and> res = Inr DeleteFailedMikroTik)
       \<and> (d' \<noteq> d \<longrightarrow>
            fst (delete_user uname (get_mikrotik_manager cfg, r)) \<and> res = Inr DeletedSuccessfully)
       \<and> (fst (delete_user uname (get_mikrotik_manager cfg, r)) \<longrightarrow>
            (\<exists>us. (Get ''/user-manager/user'' [(''name'', Str uname)], Returns us)
                    \<in> set (exchanges r r')
               \<and> (us \<noteq> [] \<longrightarrow>
                    (\<exists>i rows. map_of (hd us) ''id'' = Some i
                       \<and> (Remove ''/user-manager/user'' [(''id'', Str i)], Returns rows)
                           \<in> set (exchanges r r'))))
            \<and> (commit_ok \<longrightarrow>
                 res = Inr DeletedSuccessfully
                 \<and> d' = d\<lparr>subscriptions :=
                           (case find (\<lambda>s. mikrotik_username s = uname) (subscriptions d) of
                              None \<Rightarrow> subscriptions d
                            | Some sub \<Rightarrow> filter (\<lambda>s. sid s \<noteq> sid sub) (subscriptions d))\<rparr>))"
proof -
  obtain ok m r1 where del: "delete_user uname (get_mikrotik_manager cfg, r) = (ok, m, r1)"
    by (metis prod_cases3)
  have run: "(if ok
              then case find (\<lambda>s. mikrotik_username s = uname) (subscriptions d) of
                     None \<Rightarrow> (Inr DeletedSuccessfully, d, r1)
                   | Some sub \<Rightarrow>
                       if commit_ok
                       then (Inr DeletedSuccessfully,
                             d\<lparr>subscriptions := filter (\<lambda>s. sid s \<noteq> sid sub) (subscriptions d)\<rparr>,
                             r1)
                       else (Inl DBError, d, r1)
              else (Inr DeleteFailedMikroTik, d, r1)) = (res, d', r')"
    using assms by (cases ok) (simp_all add: process_delete_confirm_def del)
  have c1: "r' = r1"
    using run by (auto split: if_splits option.splits)
  have c2: "\<not> ok \<longrightarrow> d' = d \<and> res = Inr DeleteFailedMikroTik"
    using run by (auto split: if_splits option.splits)
  have c3: "d' \<noteq> d \<longrightarrow> ok \<and> res = Inr DeletedSuccessfully"
    using run by (auto split: if_splits option.splits)
  have log: "\<exists>us. (Get ''/user-manager/user'' [(''name'', Str uname)], Returns us)
                    \<in> set (exchanges r r')
               \<and> (us \<noteq> [] \<longrightarrow>
                    (\<exists>i rows. map_of (hd us) ''id'' = Some i
                       \<and> (Remove ''/user-manager/user'' [(''id'', Str i)], Returns rows)
                           \<in> set (exchanges r r')))" if "ok"
  proof -
    from del that have "delete_user uname (get_mikrotik_manager cfg, r) = (True, m, r')"
      by (simp add: c1)
    from delete_user_success [OF this] show ?thesis
      by simp
  qed
  have store: "commit_ok \<longrightarrow> res = Inr DeletedSuccessfully
                 \<and> d' = d\<lparr>subscriptions :=
                           (case find (\<lambda>s. mikrotik_username s = uname) (subscriptions d) of
                              None \<Rightarrow> subscriptions d
                            | Some sub \<Rightarrow> filter (\<lambda>s. sid s \<noteq> sid sub) (subscriptions d))\<rparr>"
    if "ok"
    using run that by (auto split: option.splits)
  have c4: "ok \<longrightarrow>
            (\<exists>us. (Get ''/user-manager/user'' [(''name'', Str uname)], Returns us)
                    \<in> set (exchanges r r')
               \<and> (us \<noteq> [] \<longrightarrow>
                    (\<exists>i rows. map_of (hd us) ''id'' = Some i
                       \<and> (Remove ''/user-manager/user'' [(''id'', Str i)], Returns rows)
                           \<in> set (exchanges r r'))))
            \<and> (commit_ok \<longrightarrow> res = Inr DeletedSuccessfully
                 \<and> d' = d\<lparr>subscriptions :=
                           (case find (\<lambda>s. mikrotik_username s = uname) (subscriptions d) of
                              None \<Rightarrow> subscriptions d
                            | Some sub \<Rightarrow> filter (\<lambda>s. sid s \<noteq> sid sub) (subscriptions d))\<rparr>)"
  proof (rule impI)
    assume ok
    from log [OF this] store [OF this] show
      "(\<exists>us. (Get ''/user-manager/user'' [(''name'', Str uname)], Returns us)
                    \<in> set (exchanges r r')
               \<and> (us \<noteq> [] \<longrightarrow>
                    (\<exists>i rows. map_of (hd us) ''id'' = Some i
                       \<and> (Remove ''/user-manager/user'' [(''id'', Str i)], Returns rows)
                           \<in> set (exchanges r r'))))
            \<and> (commit_ok \<longrightarrow> res = Inr DeletedSuccessfully
                 \<and> d' = d\<lparr>subscriptions :=
                           (case find (\<lambda>s. mikrotik_username s = uname) (subscriptions d) of
                              None \<Rightarrow> subscriptions d
                            | Some sub \<Rightarrow> filter (\<lambda>s. sid s \<noteq> sid sub) (subscriptions d))\<rparr>)"
      by (rule conjI)
  qed
  show ?thesis
    unfolding del fst_conv snd_conv by (intro conjI c1 c2 c3 c4)
qed

theorem delete_remote_before_local_witness:
  "py_strip B0 '' DELETE '' = ''DELETE''
   \<and> fst (delete_user ''u00000001'' (get_mikrotik_manager cfg0, router2))
   \<and> (Remove ''/user-manager/user'' [(''id'', Str ''*1'')], Returns [])
        \<in> set (exchanges router2
                 (snd (snd (process_delete_confirm B0 cfg0 True '' DELETE '' ''u00000001''
                              (db0, router2)))))
   \<and> fst (process_delete_confirm B0 cfg0 True '' DELETE '' ''u00000001'' (db0, router2))
       = Inr DeletedSuccessfully
   \<and> subscriptions
        (fst (snd (process_delete_confirm B0 cfg0 True '' DELETE '' ''u00000001''
                     (db0, router2)))) = []"
proof -
  let ?X = "process_delete_confirm B0 cfg0 True '' DELETE '' ''u00000001'' (db0, router2)"
  have del: "delete_user ''u00000001'' (get_mikrotik_manager cfg0, router2) =
      (True, (get_mikrotik_manager cfg0)\<lparr>api := True\<rparr>,
       \<lparr>replies = [],
        calls = [Connect ''192.168.88.1'' 8728,
                 Get ''/user-manager/session''
                   [(''user'', Str ''u00000001''), (''active'', Str ''true'')],
                 Get ''/user-manager/user'' [(''name'', Str ''u00000001'')],
                 Remove ''/user-manager/user'' [(''id'', Str ''*1'')],
                 Get ''/user-manager/user-profile'' [(''user'', Str ''u00000001'')],
                 Remove ''/user-manager/user-profile'' [(''id'', Str ''*9'')]]\<rparr>)"
    by (simp add: delete_user_def disconnect_user_session_def try_rad_def bind_rad_def
        get_resource_def connect_def perform_def return_rad_def item_def
        get_mikrotik_manager_def MikroTikManager_def or_default_def cfg0_def router2_def)
  have h2: "py_strip B0 '' DELETE '' = ''DELETE''"
    by (rule B0_fields)
  have h3: "fst (delete_user ''u00000001'' (get_mikrotik_manager cfg0, router2))"
    by (simp add: del)
  have h1: "?X = (fst ?X, fst (snd ?X), snd (snd ?X))"
    by simp
  note T = delete_remote_before_local [OF h1 h2]
  have r': "snd (snd ?X) = snd (snd (delete_user ''u00000001'' (get_mikrotik_manager cfg0, router2)))"
    using T by (rule conjunct1)
  have removed: "(Remove ''/user-manager/user'' [(''id'', Str ''*1'')], Returns [])
        \<in> set (exchanges router2 (snd (snd ?X)))"
    unfolding r' del by (simp add: exchanges_def router2_def)
  have "fst ?X = Inr DeletedSuccessfully
        \<and> fst (snd ?X) = db0\<lparr>subscriptions :=
             (case find (\<lambda>s. mikrotik_username s = ''u00000001'') (subscriptions db0) of
                None \<Rightarrow> subscriptions db0
              | Some sub \<Rightarrow> filter (\<lambda>s. sid s \<noteq> sid sub) (subscriptions db0))\<rparr>"
    by (rule T [THEN conjunct2, THEN conjunct2, THEN conjunct2, THEN mp, OF h3,
          THEN conjunct2, THEN mp, OF TrueI])
  then have res: "fst ?X = Inr DeletedSuccessfully"
    and gone: "subscriptions (fst (snd ?X)) = []"
    by (simp_all add: db0_tables sub1_fields)
  show ?thesis
    by (intro conjI h2 h3 removed res gone)
qed

text \<open>
  The success of \<open>delete_user\<close> includes the case in which the router lists no
  account of that name: then nothing is removed there, and the local row is deleted all
  the same. The router asked is always the one of the configured defaults.
\<close>

lemma deletion_of_unlisted_account:
  "process_delete_confirm B0 cfg0 True ''DELETE'' ''u00000001'' (db0, router3) =
     (Inr DeletedSuccessfully, db0\<lparr>subscriptions := []\<rparr>,
      \<lparr>replies = [],
       calls = [Connect ''192.168.88.1'' 8728,
                Get ''/user-manager/session''
                  [(''user'', Str ''u00000001''), (''active'', Str ''true'')],
                Get ''/user-manager/user'' [(''name'', Str ''u00000001'')],
                Get ''/user-manager/user-profile'' [(''user'', Str ''u00000001'')]]\<rparr>)"
proof -
  have "delete_user ''u00000001'' (get_mikrotik_manager cfg0, router3) =
      (True, (get_mikrotik_manager cfg0)\<lparr>api := True\<rparr>,
       \<lparr>replies = [],
        calls = [Connect ''192.168.88.1'' 8728,
                 Get ''/user-manager/session''
                   [(''user'', Str ''u00000001''), (''active'', Str ''true'')],
                 Get ''/user-manager/user'' [(''name'', Str ''u00000001'')],
                 Get ''/user-manager/user-profile'' [(''user'', Str ''u00000001'')]]\<rparr>)"
    by (simp add: delete_user_def disconnect_user_session_def try_rad_def bind_rad_def
        get_resource_def connect_def perform_def return_rad_def item_def
        get_mikrotik_manager_def MikroTikManager_def or_default_def cfg0_def router3_def)
  then show ?thesis
    by (simp add: process_delete_confirm_def B0_def db0_tables sub1_fields)
qed

end
